theory Spec2Isabelle
  imports Complex_Main "HOL-Library.Multiset" "HOL-Library.Sublist"
begin

section \<open>Python exceptions and library parameters\<close>

text \<open>
  The two scripts are Python. Every exception the code can raise by itself is a
  constructor of \<open>exn\<close>; a function that can raise returns \<open>exn + 'a\<close>, with
  \<open>Inl\<close> for the raised exception.
\<close>

datatype exn =
  AttributeError | TypeError | NameError | KeyError | AssertionError
  | ValueError | IndexError | ZeroDivisionError

text \<open>
  RDKit, Keras, NumPy and the \<open>random\<close> module are libraries, not code of this
  repository. Their functions are parameters of the model, collected in one record
  and taken as functions that return normally:
  \<^item> \<open>SDMolSupplier path\<close>: the records of the SDF file, in file order; a record that
    does not parse is \<open>None\<close>, as RDKit's supplier yields it;
  \<^item> \<open>GetPropsAsDict mol\<close>: the property dictionary of a molecule;
  \<^item> \<open>MolToSmiles\<close>, \<open>MolFromSmiles\<close>, \<open>RDKFingerprint\<close> (the bit vector, as the
    list of its bits that Python's \<open>list(...)\<close> enumerates), \<open>MolToImage\<close> with its
    \<open>size\<close> argument, the image's \<open>convert\<close> with its \<open>mode\<close> argument,
    \<open>img_to_array\<close>;
  \<^item> \<open>astype_X\<close> and \<open>astype_Y\<close>: what \<open>np.array\<close> makes of one entry. \<open>np.array\<close> of a
    list of equally long rows keeps the rows and their order and converts every entry
    to the one element type it chooses for the whole array; \<open>astype_X xs x\<close> is the
    converted structure \<open>x\<close> of the list \<open>xs\<close>, and \<open>astype_Y ys v\<close> the converted label
    value \<open>v\<close> of the rows \<open>ys\<close>;
  \<^item> \<open>seed\<close> and \<open>randbelow\<close>: the generator state that \<open>random.seed(n)\<close> installs, and
    the generator's draw of an integer below \<open>n\<close>, returning the next state.
\<close>

text \<open>An element of \<open>X\<close>: a fingerprint's list of bits, or the array of a 2D image.\<close>

datatype 'arr struct = Fingerprint "bool list" | Image2D 'arr

record ('m, 'v, 'img, 'arr, 'g) library =
  SDMolSupplier :: "string \<Rightarrow> 'm option list"
  GetPropsAsDict :: "'m \<Rightarrow> (string \<rightharpoonup> 'v)"
  MolToSmiles :: "'m \<Rightarrow> string"
  MolFromSmiles :: "string \<Rightarrow> 'm option"
  RDKFingerprint :: "'m option \<Rightarrow> bool list"
  MolToImage :: "'m option \<Rightarrow> nat \<times> nat \<Rightarrow> 'img"
  convert :: "'img \<Rightarrow> string \<Rightarrow> 'img"
  img_to_array :: "'img \<Rightarrow> 'arr"
  astype_X :: "'arr struct list \<Rightarrow> 'arr struct \<Rightarrow> 'arr struct"
  astype_Y :: "'v list list \<Rightarrow> 'v \<Rightarrow> 'v"
  seed :: "int \<Rightarrow> 'g"
  randbelow :: "'g \<Rightarrow> nat \<Rightarrow> nat \<times> 'g"

section \<open>data_preprocessing.py\<close>

subsection \<open>Structure encodings\<close>

definition convert_smiles_into_2d_structure_images ::
  "('m, 'v, 'img, 'arr, 'g) library \<Rightarrow> string \<Rightarrow> 'img" where
  "convert_smiles_into_2d_structure_images L smile =
     (let mol = MolFromSmiles L smile
      in convert L (MolToImage L mol (800, 800)) ''L'')"

definition convert_smiles_into_fingerprints ::
  "('m, 'v, 'img, 'arr, 'g) library \<Rightarrow> string \<Rightarrow> bool list" where
  "convert_smiles_into_fingerprints L smile =
     (let mol = MolFromSmiles L smile
      in RDKFingerprint L mol)"

subsection \<open>The conversion loop\<close>

text \<open>
  The local variables of \<open>convert_sdf_to_npz\<close> that the loop updates, and the
  exceptions handed to \<open>LOGGER.warning\<close> so far. The lines printed to the terminal
  and the debug and info records of the logger are left out: nothing else depends on
  them.
\<close>

record ('v, 'arr) locals =
  X :: "'arr struct list"
  Y :: "'v list list"
  counter :: nat
  warnings :: "exn list"

text \<open>\<open>[properties_dict[key] for key in properties]\<close>: a missing key raises.\<close>

fun getitems :: "(string \<rightharpoonup> 'v) \<Rightarrow> string list \<Rightarrow> exn + 'v list" where
  "getitems d [] = Inr []"
| "getitems d (key # keys) =
     (case d key of
        None \<Rightarrow> Inl KeyError
      | Some v \<Rightarrow> (case getitems d keys of Inl e \<Rightarrow> Inl e | Inr vs \<Rightarrow> Inr (v # vs)))"

text \<open>
  The structure of one molecule from its SMILES string: the \<open>if/elif/else\<close> on
  \<open>struct_type\<close>.
\<close>

definition encode ::
  "('m, 'v, 'img, 'arr, 'g) library \<Rightarrow> string \<Rightarrow> string \<Rightarrow> exn + 'arr struct" where
  "encode L struct_type smile =
     (if struct_type = ''fingerprints'' then
        Inr (Fingerprint (convert_smiles_into_fingerprints L smile))
      else if struct_type = ''2Dimg'' then
        (let img = convert_smiles_into_2d_structure_images L smile
         in Inr (Image2D (img_to_array L img)))
      else Inl NameError)"

text \<open>
  The body of the \<open>try\<close> block for one record. \<open>mol\<close> is \<open>None\<close> for a record that
  did not parse, and \<open>None.GetPropsAsDict()\<close> raises AttributeError;
  \<open>properties\<close> is \<open>None\<close> when the argument is left at its default, and
  \<open>set(None)\<close> raises TypeError.
\<close>

definition try_body ::
  "('m, 'v, 'img, 'arr, 'g) library \<Rightarrow> string \<Rightarrow> string list option \<Rightarrow> 'm option \<Rightarrow>
   ('v, 'arr) locals \<Rightarrow> exn + ('v, 'arr) locals" where
  "try_body L struct_type properties mol S =
     (case mol of
        None \<Rightarrow> Inl AttributeError
      | Some m \<Rightarrow>
          (let properties_dict = GetPropsAsDict L m in
           case properties of
             None \<Rightarrow> Inl TypeError
           | Some ps \<Rightarrow>
               if set ps \<subseteq> dom properties_dict then
                 (let smile = MolToSmiles L m in
                  case encode L struct_type smile of
                    Inl e \<Rightarrow> Inl e
                  | Inr struct \<Rightarrow>
                      (case getitems properties_dict ps of
                         Inl e \<Rightarrow> Inl e
                       | Inr label \<Rightarrow> Inr (S\<lparr>X := X S @ [struct], Y := Y S @ [label]\<rparr>)))
               else Inr S))"

text \<open>
  One iteration: the \<open>try\<close> block, the \<open>except AttributeError\<close> handler (which logs
  and goes on), and the counter. Any other exception leaves the function.
\<close>

definition iteration ::
  "('m, 'v, 'img, 'arr, 'g) library \<Rightarrow> string \<Rightarrow> string list option \<Rightarrow> 'm option \<Rightarrow>
   ('v, 'arr) locals \<Rightarrow> exn + ('v, 'arr) locals" where
  "iteration L struct_type properties mol S =
     (case try_body L struct_type properties mol S of
        Inl err \<Rightarrow>
          if err = AttributeError
          then Inr (S\<lparr>counter := counter S + 1, warnings := warnings S @ [err]\<rparr>)
          else Inl err
      | Inr S' \<Rightarrow> Inr (S'\<lparr>counter := counter S' + 1\<rparr>))"

text \<open>\<open>for mol in suppl\<close>.\<close>

fun loop ::
  "('m, 'v, 'img, 'arr, 'g) library \<Rightarrow> string \<Rightarrow> string list option \<Rightarrow> 'm option list \<Rightarrow>
   ('v, 'arr) locals \<Rightarrow> exn + ('v, 'arr) locals" where
  "loop L struct_type properties [] S = Inr S"
| "loop L struct_type properties (mol # suppl) S =
     (case iteration L struct_type properties mol S of
        Inl err \<Rightarrow> Inl err
      | Inr S' \<Rightarrow> loop L struct_type properties suppl S')"

definition initial :: "('v, 'arr) locals" where
  "initial = \<lparr>X = [], Y = [], counter = 0, warnings = []\<rparr>"

subsection \<open>Shuffling, unzipping, the output path\<close>

text \<open>
  \<open>random.shuffle(x)\<close> of the standard library, over the generator's \<open>randbelow\<close>:
  \<^verbatim>\<open>for i in reversed(range(1, len(x))): j = randbelow(i + 1); x[i], x[j] = x[j], x[i]\<close>
  \<open>shuffle_from k\<close> runs the iterations \<open>i = k, ..., 1\<close>.
\<close>

primrec shuffle_from ::
  "('g \<Rightarrow> nat \<Rightarrow> nat \<times> 'g) \<Rightarrow> nat \<Rightarrow> 'a list \<Rightarrow> 'g \<Rightarrow> 'a list \<times> 'g" where
  "shuffle_from rb 0 x g = (x, g)"
| "shuffle_from rb (Suc k) x g =
     (let i = Suc k;
          (j, g') = rb g (i + 1)
      in shuffle_from rb k (x[i := x ! j, j := x ! i]) g')"

definition shuffle :: "('g \<Rightarrow> nat \<Rightarrow> nat \<times> 'g) \<Rightarrow> 'a list \<Rightarrow> 'g \<Rightarrow> 'a list \<times> 'g" where
  "shuffle rb x g = shuffle_from rb (length x - 1) x g"

text \<open>
  \<open>X, Y = zip(*mols)\<close>: every element of \<open>mols\<close> is a pair, so \<open>zip(*mols)\<close> yields
  two tuples when \<open>mols\<close> is not empty and none when it is, and unpacking none into
  two names raises ValueError.
\<close>

definition unzip :: "('a \<times> 'b) list \<Rightarrow> exn + ('a list \<times> 'b list)" where
  "unzip mols = (if mols = [] then Inl ValueError else Inr (map fst mols, map snd mols))"

text \<open>
  \<open>s.replace(old, new)\<close> of Python's \<open>str\<close>: every occurrence of \<open>old\<close>, found from
  left to right without overlap, becomes \<open>new\<close>. An empty \<open>old\<close> matches before
  every character and at the end.
\<close>

fun replace :: "string \<Rightarrow> string \<Rightarrow> string \<Rightarrow> string" where
  "replace old new [] = (if old = [] then new else [])"
| "replace old new (c # cs) =
     (if old = [] then new @ c # replace old new cs
      else if take (length old) (c # cs) = old
      then new @ replace old new (drop (length old - 1) cs)
      else c # replace old new cs)"

text \<open>\<open>a or b\<close> on an optional string: \<open>None\<close> and the empty string are falsy.\<close>

definition py_or :: "string option \<Rightarrow> string \<Rightarrow> string" where
  "py_or a b = (case a of None \<Rightarrow> b | Some s \<Rightarrow> if s = [] then b else s)"

text \<open>\<open>X = np.array(X)\<close> and \<open>Y = np.array(Y)\<close>.\<close>

definition np_array_X ::
  "('m, 'v, 'img, 'arr, 'g) library \<Rightarrow> 'arr struct list \<Rightarrow> 'arr struct list" where
  "np_array_X L xs = map (astype_X L xs) xs"

definition np_array_Y ::
  "('m, 'v, 'img, 'arr, 'g) library \<Rightarrow> 'v list list \<Rightarrow> 'v list list" where
  "np_array_Y L ys = map (map (astype_Y L ys)) ys"

text \<open>
  The file that \<open>np.savez(file, ...)\<close> writes for a file name: NumPy appends \<open>.npz\<close> to
  a name that does not end with it.
\<close>

definition savez_file :: "string \<Rightarrow> string" where
  "savez_file file = (if suffix ''.npz'' file then file else file @ ''.npz'')"

text \<open>\<open>"_%s.npz" % struct_type\<close>.\<close>

definition npz_suffix :: "string \<Rightarrow> string" where
  "npz_suffix struct_type = ''_'' @ struct_type @ ''.npz''"

subsection \<open>convert_sdf_to_npz\<close>

text \<open>
  What a call can change outside its own variables: the files on disk that
  \<open>np.savez\<close> has written, each with its arrays \<open>x\<close> and \<open>y\<close>, and the state of the
  global random number generator.
\<close>

record ('v, 'arr, 'g) world =
  files :: "string \<rightharpoonup> ('arr struct list \<times> 'v list list)"
  rng :: 'g

definition convert_sdf_to_npz ::
  "('m, 'v, 'img, 'arr, 'g) library \<Rightarrow> string \<Rightarrow> string \<Rightarrow> string list option \<Rightarrow>
   string option \<Rightarrow> ('v, 'arr, 'g) world \<Rightarrow> (exn + unit) \<times> ('v, 'arr, 'g) world" where
  "convert_sdf_to_npz L sdf_file_path struct_type properties npz_file_path w =
     (let suppl = SDMolSupplier L sdf_file_path in
      case loop L struct_type properties suppl initial of
        Inl err \<Rightarrow> (Inl err, w)
      | Inr S \<Rightarrow>
          (let mols = zip (X S) (Y S) in
           if \<not> (length (X S) = length (Y S) \<and> length (Y S) = length mols)
           then (Inl AssertionError, w)
           else
             (let (mols', g') = shuffle (randbelow L) mols (rng w);
                  w' = w\<lparr>rng := g'\<rparr>
              in case unzip mols' of
                   Inl err \<Rightarrow> (Inl err, w')
                 | Inr (X', Y') \<Rightarrow>
                     (let X' = np_array_X L X';
                          Y' = np_array_Y L Y';
                          npz_file_path =
                            py_or npz_file_path
                              (replace ''.sdf'' (npz_suffix struct_type) sdf_file_path)
                      in (Inr (),
                          w'\<lparr>files := (files w')(savez_file npz_file_path \<mapsto> (X', Y'))\<rparr>)))))"

subsection \<open>The script\<close>

text \<open>
  Sequencing of statements: when the first raises, the second does not run.
\<close>

definition and_then ::
  "(exn + unit) \<times> 'w \<Rightarrow> ('w \<Rightarrow> (exn + unit) \<times> 'w) \<Rightarrow> (exn + unit) \<times> 'w" where
  "and_then r f = (case fst r of Inl err \<Rightarrow> r | Inr u \<Rightarrow> f (snd r))"

definition main ::
  "('m, 'v, 'img, 'arr, 'g) library \<Rightarrow> ('v, 'arr, 'g) world \<Rightarrow>
   (exn + unit) \<times> ('v, 'arr, 'g) world" where
  "main L w =
     (let properties = [''NR-AR'', ''NR-ER-LBD'', ''SR-ATAD5''] in
      and_then (and_then (and_then (and_then (and_then
        (convert_sdf_to_npz L ''data/tox21_10k_data_all.sdf'' ''fingerprints''
           (Some properties) None w)
        (convert_sdf_to_npz L ''data/ncidb.sdf'' ''fingerprints'' (Some [''KOW logP'']) None))
        (convert_sdf_to_npz L ''data/ncidb.sdf'' ''fingerprints'' (Some [''Experimental logP''])
           (Some ''data/ncidb_experim_data_fingerprints.npz'')))
        (convert_sdf_to_npz L ''data/tox21_10k_data_all.sdf'' ''2Dimg'' (Some properties) None))
        (convert_sdf_to_npz L ''data/ncidb.sdf'' ''2Dimg'' (Some [''KOW logP'']) None))
        (convert_sdf_to_npz L ''data/ncidb.sdf'' ''2Dimg'' (Some [''Experimental logP''])
           (Some ''data/ncidb_experim_data_fingerprints.npz'')))"

text \<open>
  Running the file as a script: the module's top level calls \<open>random.seed(1)\<close>, which
  replaces whatever state the generator had, and then \<open>main()\<close>.
\<close>

definition script ::
  "('m, 'v, 'img, 'arr, 'g) library \<Rightarrow> ('v, 'arr, 'g) world \<Rightarrow>
   (exn + unit) \<times> ('v, 'arr, 'g) world" where
  "script L w = main L (w\<lparr>rng := seed L 1\<rparr>)"

section \<open>fc_nn_tox21-multi-task.py: each_metric\<close>

text \<open>
  A two-dimensional array: its second dimension and its rows. Entries are rational
  numbers: the code compares them with \<open>>\<close> and \<open>==\<close>, which on finite floating
  point values are the comparisons of the numbers they denote.
\<close>

record ndarray =
  shape1 :: nat
  rows :: "rat list list"

definition shape0 :: "ndarray \<Rightarrow> nat" where
  "shape0 a = length (rows a)"

text \<open>\<open>a[j][i]\<close> for indices that are not negative.\<close>

definition getitem2 :: "ndarray \<Rightarrow> nat \<Rightarrow> nat \<Rightarrow> exn + rat" where
  "getitem2 a j i =
     (if j < length (rows a) then
        (if i < length (rows a ! j) then Inr (rows a ! j ! i) else Inl IndexError)
      else Inl IndexError)"

text \<open>\<open>a[:, i]\<close>.\<close>

definition column :: "ndarray \<Rightarrow> nat \<Rightarrow> exn + rat list" where
  "column a i = (if i < shape1 a then Inr (map (\<lambda>r. r ! i) (rows a)) else Inl IndexError)"

text \<open>\<open>xs[i]\<close> on a one-dimensional array, for an index that is not negative.\<close>

definition getitem :: "'a list \<Rightarrow> nat \<Rightarrow> exn + 'a" where
  "getitem xs i = (if i < length xs then Inr (xs ! i) else Inl IndexError)"

text \<open>\<open>(y_pred > 0.5) * 1.0\<close>, element by element.\<close>

definition threshold :: "rat \<Rightarrow> rat" where
  "threshold p = (if p > 1 / 2 then 1 else 0)"

definition masking :: "ndarray \<Rightarrow> ndarray" where
  "masking y_pred = y_pred\<lparr>rows := map (map threshold) (rows y_pred)\<rparr>"

text \<open>\<open>right / total\<close> on Python integers.\<close>

definition truediv :: "nat \<Rightarrow> nat \<Rightarrow> exn + rat" where
  "truediv a b = (if b = 0 then Inl ZeroDivisionError else Inr (of_nat a / of_nat b))"

definition classes :: "string list" where
  "classes = [''NR-AR'', ''NR-ER-LBD'', ''SR-ATAD5'']"

text \<open>What \<open>each_metric\<close> prints, line by line.\<close>

datatype line = Accuracy string rat | Banner | F1_score string rat

text \<open>The inner loop \<open>for j in range(total)\<close> of the accuracy computation.\<close>

fun count_right :: "ndarray \<Rightarrow> ndarray \<Rightarrow> nat \<Rightarrow> nat list \<Rightarrow> nat \<Rightarrow> exn + nat" where
  "count_right y_pred y_test i [] right = Inr right"
| "count_right y_pred y_test i (j # js) right =
     (case getitem2 y_pred j i of
        Inl err \<Rightarrow> Inl err
      | Inr p \<Rightarrow>
          (case getitem2 y_test j i of
             Inl err \<Rightarrow> Inl err
           | Inr t \<Rightarrow> count_right y_pred y_test i js (if p = t then right + 1 else right)))"

text \<open>
  The first \<open>for i in range(y_pred.shape[1])\<close>. The quotient is computed before
  \<open>classes[i]\<close> is read for the \<open>print\<close>.
\<close>

fun accuracy_loop ::
  "ndarray \<Rightarrow> ndarray \<Rightarrow> nat \<Rightarrow> nat list \<Rightarrow> line list \<Rightarrow> (exn + unit) \<times> line list" where
  "accuracy_loop y_pred y_test total' [] out = (Inr (), out)"
| "accuracy_loop y_pred y_test total' (i # cols) out =
     (case count_right y_pred y_test i [0..<total'] 0 of
        Inl err \<Rightarrow> (Inl err, out)
      | Inr right \<Rightarrow>
          (case truediv right total' of
             Inl err \<Rightarrow> (Inl err, out)
           | Inr accuracy \<Rightarrow>
               (case getitem classes i of
                  Inl err \<Rightarrow> (Inl err, out)
                | Inr name \<Rightarrow>
                    accuracy_loop y_pred y_test total' cols (out @ [Accuracy name accuracy]))))"

text \<open>
  The second \<open>for i in range(y_pred.shape[1])\<close>; \<open>fbeta_score\<close> of scikit-learn is a
  parameter, applied to the true column, the predicted column and \<open>beta\<close>.
\<close>

fun f1_loop ::
  "(rat list \<Rightarrow> rat list \<Rightarrow> rat \<Rightarrow> rat) \<Rightarrow> ndarray \<Rightarrow> ndarray \<Rightarrow> nat list \<Rightarrow> line list \<Rightarrow>
   (exn + unit) \<times> line list" where
  "f1_loop fbeta_score y_pred y_test [] out = (Inr (), out)"
| "f1_loop fbeta_score y_pred y_test (i # cols) out =
     (case column y_pred i of
        Inl err \<Rightarrow> (Inl err, out)
      | Inr y_p \<Rightarrow>
          (case column y_test i of
             Inl err \<Rightarrow> (Inl err, out)
           | Inr y_t \<Rightarrow>
               (let f1 = fbeta_score y_t y_p 1 in
                case getitem classes i of
                  Inl err \<Rightarrow> (Inl err, out)
                | Inr name \<Rightarrow> f1_loop fbeta_score y_pred y_test cols (out @ [F1_score name f1]))))"

text \<open>
  \<open>each_metric(input_data, y_test, model)\<close>; the model is given by its \<open>predict\<close>
  method. The result is the exception raised, if any, and the lines printed.
\<close>

definition each_metric ::
  "(rat list \<Rightarrow> rat list \<Rightarrow> rat \<Rightarrow> rat) \<Rightarrow> 'x \<Rightarrow> ndarray \<Rightarrow> ('x \<Rightarrow> ndarray) \<Rightarrow>
   (exn + unit) \<times> line list" where
  "each_metric fbeta_score input_data y_test predict =
     (let y_pred = predict input_data;
          y_pred = masking y_pred;
          total' = shape0 y_pred
      in case accuracy_loop y_pred y_test total' [0..<shape1 y_pred] [] of
           (Inl err, out) \<Rightarrow> (Inl err, out)
         | (Inr u, out) \<Rightarrow> f1_loop fbeta_score y_pred y_test [0..<shape1 y_pred] (out @ [Banner]))"

section \<open>Predicates of the specification\<close>

text \<open>
  A record passes the filter: it parsed to a molecule, and every requested property
  name is a key of its property dictionary.
\<close>

definition included ::
  "('m, 'v, 'img, 'arr, 'g) library \<Rightarrow> string list \<Rightarrow> 'm option \<Rightarrow> bool" where
  "included L ps r =
     (case r of None \<Rightarrow> False | Some m \<Rightarrow> set ps \<subseteq> dom (GetPropsAsDict L m))"

definition supported :: "string \<Rightarrow> bool" where
  "supported struct_type = (struct_type = ''fingerprints'' \<or> struct_type = ''2Dimg'')"

text \<open>\<open>x\<close> is the structure computed for record \<open>r\<close> under \<open>struct_type\<close>.\<close>

definition structure_of ::
  "('m, 'v, 'img, 'arr, 'g) library \<Rightarrow> string \<Rightarrow> 'arr struct \<Rightarrow> 'm option \<Rightarrow> bool" where
  "structure_of L struct_type x r =
     (case r of
        None \<Rightarrow> False
      | Some m \<Rightarrow> encode L struct_type (MolToSmiles L m) = Inr x)"

text \<open>
  \<open>y\<close> lists the values that record \<open>r\<close> has for the property names \<open>ps\<close>, in the
  order of \<open>ps\<close>.
\<close>

definition label_of ::
  "('m, 'v, 'img, 'arr, 'g) library \<Rightarrow> string list \<Rightarrow> 'v list \<Rightarrow> 'm option \<Rightarrow> bool" where
  "label_of L ps y r =
     (case r of
        None \<Rightarrow> False
      | Some m \<Rightarrow> map Some y = map (GetPropsAsDict L m) ps)"

text \<open>
  The contract of the generator's \<open>randbelow(n)\<close>: for a positive \<open>n\<close> the draw is
  below \<open>n\<close>.
\<close>

definition randbelow_in_range :: "('g \<Rightarrow> nat \<Rightarrow> nat \<times> 'g) \<Rightarrow> bool" where
  "randbelow_in_range rb = (\<forall>g n. 0 < n \<longrightarrow> fst (rb g n) < n)"

text \<open>
  \<open>t\<close> is \<open>s\<close> with every occurrence of \<open>old\<close> replaced by \<open>new\<close>, the occurrences taken
  from the left: either \<open>old\<close> does not occur in \<open>s\<close> and \<open>t\<close> is \<open>s\<close>, or \<open>s\<close> is
  \<open>p @ old @ r\<close> with no occurrence of \<open>old\<close> starting further left, and \<open>t\<close> is \<open>p\<close>,
  then \<open>new\<close>, then \<open>r\<close> with every occurrence replaced.
\<close>

inductive replaced_all :: "string \<Rightarrow> string \<Rightarrow> string \<Rightarrow> string \<Rightarrow> bool"
  for old new :: string where
  no_occurrence: "\<forall>a b. s \<noteq> a @ old @ b \<Longrightarrow> replaced_all old new s s"
| leftmost:
    "\<forall>a b. p @ old @ r = a @ old @ b \<longrightarrow> length p \<le> length a \<Longrightarrow>
     replaced_all old new r r' \<Longrightarrow>
     replaced_all old new (p @ old @ r) (p @ new @ r')"

text \<open>
  The calls of \<open>main\<close>, in order: file, structure type, properties, output path.
\<close>

definition main_calls :: "(string \<times> string \<times> string list option \<times> string option) list" where
  "main_calls =
     [(''data/tox21_10k_data_all.sdf'', ''fingerprints'',
         Some [''NR-AR'', ''NR-ER-LBD'', ''SR-ATAD5''], None),
      (''data/ncidb.sdf'', ''fingerprints'', Some [''KOW logP''], None),
      (''data/ncidb.sdf'', ''fingerprints'', Some [''Experimental logP''],
         Some ''data/ncidb_experim_data_fingerprints.npz''),
      (''data/tox21_10k_data_all.sdf'', ''2Dimg'',
         Some [''NR-AR'', ''NR-ER-LBD'', ''SR-ATAD5''], None),
      (''data/ncidb.sdf'', ''2Dimg'', Some [''KOW logP''], None),
      (''data/ncidb.sdf'', ''2Dimg'', Some [''Experimental logP''],
         Some ''data/ncidb_experim_data_fingerprints.npz'')]"

text \<open>
  What one call does, written as a function of the generator state \<open>g\<close> and the files
  \<open>fs\<close> it starts from: with \<open>n\<close> filtered records, the rearrangement \<open>p\<close> is the shuffle
  of the indices \<open>0, ..., n - 1\<close> from \<open>g\<close>, the arrays saved are \<open>np.array\<close> of \<open>X\<close> and of
  \<open>Y\<close> read in the order \<open>p\<close>, and the generator is left where the shuffle of \<open>n\<close>
  indices leaves it.
\<close>

definition reference_call ::
  "('m, 'v, 'img, 'arr, 'g) library \<Rightarrow>
   string \<times> string \<times> string list option \<times> string option \<Rightarrow> 'g \<Rightarrow>
   (string \<rightharpoonup> ('arr struct list \<times> 'v list list)) \<Rightarrow>
   (exn + unit) \<times> ('v, 'arr, 'g) world" where
  "reference_call L c g fs =
     (case c of (sdf_file_path, struct_type, properties, npz_file_path) \<Rightarrow>
        (case loop L struct_type properties (SDMolSupplier L sdf_file_path) initial of
           Inl err \<Rightarrow> (Inl err, \<lparr>files = fs, rng = g\<rparr>)
         | Inr S \<Rightarrow>
             if X S = [] then (Inl ValueError, \<lparr>files = fs, rng = g\<rparr>)
             else
               (let n = length (X S);
                    p = fst (shuffle (randbelow L) [0..<n] g);
                    g' = snd (shuffle (randbelow L) [0..<n] g);
                    file = savez_file (py_or npz_file_path
                             (replace ''.sdf'' (npz_suffix struct_type) sdf_file_path))
                in (Inr (),
                    \<lparr>files = fs(file \<mapsto>
                       (np_array_X L (map ((!) (X S)) p), np_array_Y L (map ((!) (Y S)) p))),
                     rng = g'\<rparr>))))"

text \<open>A sequence of calls, each starting where the one before it ended.\<close>

fun replay ::
  "('m, 'v, 'img, 'arr, 'g) library \<Rightarrow>
   (string \<times> string \<times> string list option \<times> string option) list \<Rightarrow> 'g \<Rightarrow>
   (string \<rightharpoonup> ('arr struct list \<times> 'v list list)) \<Rightarrow>
   (exn + unit) \<times> ('v, 'arr, 'g) world" where
  "replay L [] g fs = (Inr (), \<lparr>files = fs, rng = g\<rparr>)"
| "replay L (c # cs) g fs =
     (case reference_call L c g fs of
        (Inl err, w) \<Rightarrow> (Inl err, w)
      | (Inr u, w) \<Rightarrow> replay L cs (rng w) (files w))"

text \<open>Both arrays have the shape \<open>(n, k)\<close>.\<close>

definition has_shape :: "ndarray \<Rightarrow> nat \<Rightarrow> nat \<Rightarrow> bool" where
  "has_shape a n k = (length (rows a) = n \<and> shape1 a = k \<and> list_all (\<lambda>r. length r = k) (rows a))"

text \<open>
  The per-class accuracy of column \<open>i\<close>: the rows where the thresholded prediction
  equals the label, over the number of rows.
\<close>

definition class_accuracy :: "ndarray \<Rightarrow> ndarray \<Rightarrow> nat \<Rightarrow> rat" where
  "class_accuracy y_raw y_test i =
     of_nat (length (filter (\<lambda>j. threshold (rows y_raw ! j ! i) = rows y_test ! j ! i)
                       [0..<length (rows y_raw)]))
       / of_nat (length (rows y_raw))"

section \<open>A small concrete instance\<close>

text \<open>
  A library over four records, the second of which does not parse; molecules are
  numbers, a generator state is a number, and \<open>randbelow\<close> is a counter modulo \<open>n\<close>.
\<close>

definition example_props :: "nat \<Rightarrow> (string \<rightharpoonup> int)" where
  "example_props m =
     (if m = 0 then [''NR-AR'' \<mapsto> 1, ''SR-ATAD5'' \<mapsto> 0]
      else if m = 1 then [''NR-AR'' \<mapsto> 0]
      else [''SR-ATAD5'' \<mapsto> 1, ''NR-AR'' \<mapsto> 1])"

definition example_library :: "(nat, int, nat, nat, nat) library" where
  "example_library =
     \<lparr>SDMolSupplier = (\<lambda>path. if path = ''a.sdf.sdf'' then [Some 0, None, Some 1, Some 2] else []),
      GetPropsAsDict = example_props,
      MolToSmiles = (\<lambda>m. replicate (Suc m) CHR ''C''),
      MolFromSmiles = (\<lambda>s. if s = [] then None else Some (length s - 1)),
      RDKFingerprint = (\<lambda>mol. case mol of None \<Rightarrow> [] | Some m \<Rightarrow> [m = 0, m = 2]),
      MolToImage = (\<lambda>mol size. case mol of None \<Rightarrow> 0 | Some m \<Rightarrow> m + fst size),
      convert = (\<lambda>img mode. img),
      img_to_array = (\<lambda>img. img),
      astype_X = (\<lambda>xs x. x),
      astype_Y = (\<lambda>ys v. v),
      seed = (\<lambda>n. nat n),
      randbelow = (\<lambda>g n. (g mod n, Suc g))\<rparr>"

definition example_world :: "(int, nat, nat) world" where
  "example_world = \<lparr>files = Map.empty, rng = 0\<rparr>"

text \<open>
  A library whose labels are integers or strings. When a string is among the labels,
  \<open>np.array\<close> makes an array of strings and an integer \<open>n\<close> becomes \<open>str(n)\<close>; the two
  records of every file carry the labels \<open>1\<close> and \<open>'inconclusive'\<close>.
\<close>

function decimal :: "nat \<Rightarrow> string" where
  "decimal n =
     (if n < 10 then [''0123456789'' ! n]
      else decimal (n div 10) @ [''0123456789'' ! (n mod 10)])"
  by pat_completeness auto
termination
  by (relation "measure (\<lambda>n. n)") auto

definition str_int :: "int \<Rightarrow> string" where
  "str_int i = (if i < 0 then CHR ''-'' # decimal (nat (- i)) else decimal (nat i))"

definition mixed_library :: "(nat, int + string, nat, nat, nat) library" where
  "mixed_library =
     \<lparr>SDMolSupplier = (\<lambda>path. [Some 0, Some 1]),
      GetPropsAsDict =
        (\<lambda>m. if m = 0 then [''Experimental logP'' \<mapsto> Inl 1]
             else [''Experimental logP'' \<mapsto> Inr ''inconclusive'']),
      MolToSmiles = (\<lambda>m. replicate (Suc m) CHR ''C''),
      MolFromSmiles = (\<lambda>s. if s = [] then None else Some (length s - 1)),
      RDKFingerprint = (\<lambda>mol. case mol of None \<Rightarrow> [] | Some m \<Rightarrow> [m = 0, m = 1]),
      MolToImage = (\<lambda>mol size. case mol of None \<Rightarrow> 0 | Some m \<Rightarrow> m + fst size),
      convert = (\<lambda>img mode. img),
      img_to_array = (\<lambda>img. img),
      astype_X = (\<lambda>xs x. x),
      astype_Y =
        (\<lambda>ys v. if list_ex (list_ex (\<lambda>u. \<not> isl u)) ys
                then (case v of Inl n \<Rightarrow> Inr (str_int n) | Inr s \<Rightarrow> Inr s)
                else v),
      seed = (\<lambda>n. nat n),
      randbelow = (\<lambda>g n. (g mod n, Suc g))\<rparr>"

definition mixed_world :: "(int + string, nat, nat) world" where
  "mixed_world = \<lparr>files = Map.empty, rng = 0\<rparr>"

text \<open>
  A library with the two files that \<open>main\<close> reads: three records with the three assay
  properties, one of them incomplete, and two records with the two logP properties.
\<close>

definition script_props :: "nat \<Rightarrow> (string \<rightharpoonup> int)" where
  "script_props m =
     (if m = 0 then [''NR-AR'' \<mapsto> 1, ''NR-ER-LBD'' \<mapsto> 0, ''SR-ATAD5'' \<mapsto> 0]
      else if m = 1 then [''NR-AR'' \<mapsto> 0]
      else if m = 2 then [''NR-AR'' \<mapsto> 0, ''NR-ER-LBD'' \<mapsto> 1, ''SR-ATAD5'' \<mapsto> 1]
      else if m = 3 then [''KOW logP'' \<mapsto> 2, ''Experimental logP'' \<mapsto> 3]
      else [''KOW logP'' \<mapsto> 5, ''Experimental logP'' \<mapsto> 4])"

definition script_library :: "(nat, int, nat, nat, nat) library" where
  "script_library =
     \<lparr>SDMolSupplier =
        (\<lambda>path. if path = ''data/tox21_10k_data_all.sdf'' then [Some 0, None, Some 1, Some 2]
                else if path = ''data/ncidb.sdf'' then [Some 3, Some 4] else []),
      GetPropsAsDict = script_props,
      MolToSmiles = (\<lambda>m. replicate (Suc m) CHR ''C''),
      MolFromSmiles = (\<lambda>s. if s = [] then None else Some (length s - 1)),
      RDKFingerprint = (\<lambda>mol. case mol of None \<Rightarrow> [] | Some m \<Rightarrow> [m = 0, m = 3]),
      MolToImage = (\<lambda>mol size. case mol of None \<Rightarrow> 0 | Some m \<Rightarrow> m + fst size),
      convert = (\<lambda>img mode. img),
      img_to_array = (\<lambda>img. img),
      astype_X = (\<lambda>xs x. x),
      astype_Y = (\<lambda>ys v. v),
      seed = (\<lambda>n. nat n),
      randbelow = (\<lambda>g n. (g mod n, Suc g))\<rparr>"

section \<open>Properties of data_preprocessing.py\<close>

subsection \<open>The label vector\<close>

lemma getitems_eq:
  "getitems d ps = (if set ps \<subseteq> dom d then Inr (map (the \<circ> d) ps) else Inl KeyError)"
  by (induction ps) (auto split: option.splits)

lemma map_Some_the: "set ps \<subseteq> dom d \<Longrightarrow> map Some (map (the \<circ> d) ps) = map d ps"
  by (induction ps) auto

lemma map_Some_dom: "map Some vs = map d ps \<Longrightarrow> set ps \<subseteq> dom d"
proof
  fix k assume h: "map Some vs = map d ps" and "k \<in> set ps"
  then have "d k \<in> set (map Some vs)" unfolding h by simp
  then show "k \<in> dom d" by auto
qed

lemma getitems_Inr: "getitems d ps = Inr vs \<longleftrightarrow> map Some vs = map d ps"
proof
  assume "getitems d ps = Inr vs"
  then have "set ps \<subseteq> dom d" and "vs = map (the \<circ> d) ps"
    by (simp_all add: getitems_eq split: if_splits)
  then show "map Some vs = map d ps" by (simp only: map_Some_the)
next
  assume h: "map Some vs = map d ps"
  have "map (the \<circ> d) ps = map the (map Some vs)" unfolding h by simp
  then have "map (the \<circ> d) ps = vs" by (simp add: comp_def)
  with map_Some_dom [OF h] show "getitems d ps = Inr vs" by (simp add: getitems_eq)
qed

lemma getitems_dom: "set ps \<subseteq> dom d \<Longrightarrow> \<exists>vs. getitems d ps = Inr vs"
  by (simp add: getitems_eq)

subsection \<open>One iteration\<close>

lemma encode_supported: "supported st \<Longrightarrow> \<exists>x. encode L st smile = Inr x"
  by (auto simp: supported_def encode_def Let_def)

lemma encode_Inl: "encode L st smile = Inl e \<longleftrightarrow> \<not> supported st \<and> e = NameError"
  by (auto simp: supported_def encode_def Let_def)

lemma iteration_None:
  "iteration L st props None S =
     Inr (S\<lparr>counter := counter S + 1, warnings := warnings S @ [AttributeError]\<rparr>)"
  by (simp add: iteration_def try_body_def)

lemma iteration_skipped:
  "\<not> included L ps (Some m) \<Longrightarrow>
   iteration L st (Some ps) (Some m) S = Inr (S\<lparr>counter := counter S + 1\<rparr>)"
  by (simp add: iteration_def try_body_def included_def)

lemma iteration_included:
  assumes "included L ps (Some m)" and "encode L st (MolToSmiles L m) = Inr x"
  shows "\<exists>y. map Some y = map (GetPropsAsDict L m) ps \<and>
       iteration L st (Some ps) (Some m) S =
         Inr (S\<lparr>X := X S @ [x], Y := Y S @ [y], counter := counter S + 1\<rparr>)"
proof -
  from assms(1) have sub: "set ps \<subseteq> dom (GetPropsAsDict L m)"
    by (simp add: included_def)
  then obtain y where y: "getitems (GetPropsAsDict L m) ps = Inr y"
    using getitems_dom by blast
  then have "map Some y = map (GetPropsAsDict L m) ps"
    by (simp only: getitems_Inr)
  moreover have "iteration L st (Some ps) (Some m) S =
         Inr (S\<lparr>X := X S @ [x], Y := Y S @ [y], counter := counter S + 1\<rparr>)"
    using sub y assms(2) by (simp add: iteration_def try_body_def)
  ultimately show ?thesis by blast
qed

lemma iteration_NameError:
  "included L ps (Some m) \<Longrightarrow> \<not> supported st \<Longrightarrow>
   iteration L st (Some ps) (Some m) S = Inl NameError"
  using encode_Inl [of L st "MolToSmiles L m" NameError]
  by (simp add: iteration_def try_body_def included_def)

lemma iteration_cases:
  assumes "iteration L st (Some ps) r S = Inr S'"
  shows "(\<not> included L ps r \<and> X S' = X S \<and> Y S' = Y S) \<or>
         (\<exists>m x y. r = Some m \<and> included L ps r \<and> encode L st (MolToSmiles L m) = Inr x \<and>
            map Some y = map (GetPropsAsDict L m) ps \<and> X S' = X S @ [x] \<and> Y S' = Y S @ [y])"
proof (cases r)
  case None
  with assms show ?thesis by (auto simp: iteration_None included_def)
next
  case (Some m)
  show ?thesis
  proof (cases "included L ps (Some m)")
    case False
    with assms Some show ?thesis by (auto simp: iteration_skipped)
  next
    case True
    show ?thesis
    proof (cases "encode L st (MolToSmiles L m)")
      case (Inl e)
      then have "\<not> supported st" by (simp add: encode_Inl)
      with True assms Some show ?thesis by (simp add: iteration_NameError)
    next
      case (Inr x)
      from iteration_included [OF True Inr, of S] assms Some True Inr
      show ?thesis by auto
    qed
  qed
qed


subsection \<open>Invariants of the loop\<close>

lemma loop_lengths:
  "loop L st props suppl S = Inr S' \<Longrightarrow> length (X S) = length (Y S) \<Longrightarrow>
   length (X S') = length (Y S')"
proof (induction suppl arbitrary: S)
  case Nil
  then show ?case by simp
next
  case (Cons r rs)
  from Cons.prems(1) obtain S1 where
    it: "iteration L st props r S = Inr S1" and rest: "loop L st props rs S1 = Inr S'"
    by (auto split: sum.splits)
  from it Cons.prems(2) have "length (X S1) = length (Y S1)"
    by (auto simp: iteration_def try_body_def Let_def split: sum.splits option.splits if_splits)
  with rest show ?case by (rule Cons.IH)
qed


lemma loop_rows:
  "loop L st (Some ps) suppl S = Inr S' \<Longrightarrow>
   \<exists>xs ys. X S' = X S @ xs \<and> Y S' = Y S @ ys \<and>
     list_all2 (structure_of L st) xs (filter (included L ps) suppl) \<and>
     list_all2 (label_of L ps) ys (filter (included L ps) suppl)"
proof (induction suppl arbitrary: S)
  case Nil
  then show ?case by simp
next
  case (Cons r rs)
  from Cons.prems obtain S1 where
    it: "iteration L st (Some ps) r S = Inr S1" and rest: "loop L st (Some ps) rs S1 = Inr S'"
    by (auto split: sum.splits)
  from Cons.IH [OF rest] obtain xs ys where
    tl: "X S' = X S1 @ xs" "Y S' = Y S1 @ ys"
        "list_all2 (structure_of L st) xs (filter (included L ps) rs)"
        "list_all2 (label_of L ps) ys (filter (included L ps) rs)"
    by blast
  from iteration_cases [OF it] show ?case
  proof
    assume "\<not> included L ps r \<and> X S1 = X S \<and> Y S1 = Y S"
    with tl show ?thesis by auto
  next
    assume "\<exists>m x y. r = Some m \<and> included L ps r \<and> encode L st (MolToSmiles L m) = Inr x \<and>
            map Some y = map (GetPropsAsDict L m) ps \<and> X S1 = X S @ [x] \<and> Y S1 = Y S @ [y]"
    then obtain m x y where hd: "r = Some m" "included L ps r"
        "encode L st (MolToSmiles L m) = Inr x" "map Some y = map (GetPropsAsDict L m) ps"
        "X S1 = X S @ [x]" "Y S1 = Y S @ [y]"
      by blast
    have "X S' = X S @ (x # xs)" "Y S' = Y S @ (y # ys)"
      using tl hd by simp_all
    moreover have "list_all2 (structure_of L st) (x # xs) (filter (included L ps) (r # rs))"
      using tl(3) hd by (simp add: structure_of_def)
    moreover have "list_all2 (label_of L ps) (y # ys) (filter (included L ps) (r # rs))"
      using tl(4) hd by (simp add: label_of_def)
    ultimately show ?thesis by blast
  qed
qed

lemma loop_append:
  "loop L st props (pre @ post) S =
     (case loop L st props pre S of Inl err \<Rightarrow> Inl err | Inr S1 \<Rightarrow> loop L st props post S1)"
  by (induction pre arbitrary: S) (auto split: sum.splits)

lemma iteration_counter:
  "iteration L st props r S = Inr S' \<Longrightarrow>
   counter S' = counter S + 1 \<and>
   warnings S' = warnings S @ (if r = None then [AttributeError] else [])"
  by (auto simp: iteration_def try_body_def Let_def encode_Inl getitems_eq
      split: sum.splits option.splits if_splits)

lemma loop_counter:
  "loop L st props suppl S = Inr S' \<Longrightarrow>
   counter S' = counter S + length suppl \<and>
   warnings S' = warnings S @ replicate (length (filter (\<lambda>r. r = None) suppl)) AttributeError"
proof (induction suppl arbitrary: S)
  case Nil
  then show ?case by simp
next
  case (Cons r rs)
  from Cons.prems obtain S1 where
    it: "iteration L st props r S = Inr S1" and rest: "loop L st props rs S1 = Inr S'"
    by (auto split: sum.splits)
  from iteration_counter [OF it] Cons.IH [OF rest] show ?case
    by (simp add: replicate_app_Cons_same)
qed

lemma iteration_supported:
  "supported st \<Longrightarrow> \<exists>S'. iteration L st (Some ps) r S = Inr S'"
proof (cases r)
  case None
  then show ?thesis by (simp add: iteration_None)
next
  case (Some m)
  assume sup: "supported st"
  show ?thesis
  proof (cases "included L ps (Some m)")
    case True
    from encode_supported [OF sup] obtain x where "encode L st (MolToSmiles L m) = Inr x"
      by blast
    from iteration_included [OF True this] Some show ?thesis by blast
  next
    case False
    with Some show ?thesis by (simp add: iteration_skipped)
  qed
qed

lemma loop_supported:
  "supported st \<Longrightarrow> \<exists>S'. loop L st (Some ps) suppl S = Inr S'"
proof (induction suppl arbitrary: S)
  case Nil
  then show ?case by simp
next
  case (Cons r rs)
  from iteration_supported [OF Cons.prems] obtain S1 where
    "iteration L st (Some ps) r S = Inr S1" by blast
  with Cons.IH [OF Cons.prems, of S1] show ?case by simp
qed


lemma loop_none_included:
  "filter (included L ps) suppl = [] \<Longrightarrow>
   \<exists>S'. loop L st (Some ps) suppl S = Inr S' \<and> X S' = X S \<and> Y S' = Y S"
proof (induction suppl arbitrary: S)
  case Nil
  then show ?case by simp
next
  case (Cons r rs)
  from Cons.prems have no: "\<not> included L ps r" and rest: "filter (included L ps) rs = []"
    by (auto split: if_splits)
  obtain S1 where it: "iteration L st (Some ps) r S = Inr S1" and "X S1 = X S" "Y S1 = Y S"
  proof (cases r)
    case None
    then show ?thesis using that by (simp add: iteration_None)
  next
    case (Some m)
    with no show ?thesis using that by (simp add: iteration_skipped)
  qed
  with Cons.IH [OF rest, of S1] show ?case by auto
qed

lemma loop_NameError:
  "\<not> supported st \<Longrightarrow> filter (included L ps) suppl \<noteq> [] \<Longrightarrow>
   loop L st (Some ps) suppl S = Inl NameError"
proof (induction suppl arbitrary: S)
  case Nil
  then show ?case by simp
next
  case (Cons r rs)
  show ?case
  proof (cases "included L ps r")
    case True
    then obtain m where "r = Some m" by (cases r) (auto simp: included_def)
    with True Cons.prems(1) show ?thesis by (simp add: iteration_NameError)
  next
    case False
    with Cons.prems have rest: "filter (included L ps) rs \<noteq> []" by simp
    have "\<exists>S1. iteration L st (Some ps) r S = Inr S1"
    proof (cases r)
      case None
      then show ?thesis by (simp add: iteration_None)
    next
      case (Some m)
      with False show ?thesis by (simp add: iteration_skipped)
    qed
    then obtain S1 where "iteration L st (Some ps) r S = Inr S1" by blast
    with Cons.IH [OF Cons.prems(1) rest, of S1] show ?thesis by simp
  qed
qed

subsection \<open>The shuffle\<close>

lemma shuffle_Nil: "shuffle rb [] g = ([], g)"
  by (simp add: shuffle_def)

lemma convert_empty:
  assumes "loop L st props (SDMolSupplier L sdf) initial = Inr S" and "X S = []"
  shows "convert_sdf_to_npz L sdf st props npz w = (Inl ValueError, w)"
proof -
  from loop_lengths [OF assms(1)] assms(2) have "Y S = []" by (simp add: initial_def)
  with assms show ?thesis
    by (simp add: convert_sdf_to_npz_def shuffle_Nil unzip_def)
qed


lemma shuffle_from_length: "length (fst (shuffle_from rb k x g)) = length x"
  by (induction k arbitrary: x g) (simp_all add: Let_def split: prod.splits)

lemma shuffle_from_mset:
  "randbelow_in_range rb \<Longrightarrow> k < length x \<Longrightarrow> mset (fst (shuffle_from rb k x g)) = mset x"
proof (induction k arbitrary: x g)
  case 0
  then show ?case by simp
next
  case (Suc k)
  obtain j g' where draw: "rb g (Suc k + 1) = (j, g')" by (cases "rb g (Suc k + 1)")
  from Suc.prems(1) have "fst (rb g (Suc k + 1)) < Suc k + 1"
    unfolding randbelow_in_range_def by blast
  with draw Suc.prems(2) have j: "j < length x" by simp
  let ?x = "x[Suc k := x ! j, j := x ! Suc k]"
  have "mset ?x = mset x" using j Suc.prems(2) by (simp add: mset_swap)
  moreover have "mset (fst (shuffle_from rb k ?x g')) = mset ?x"
    using Suc.prems by (intro Suc.IH) simp_all
  ultimately show ?case using draw by (simp add: Let_def)
qed

lemma shuffle_from_map:
  "randbelow_in_range rb \<Longrightarrow> k < length x \<Longrightarrow>
   shuffle_from rb k (map f x) g =
     (map f (fst (shuffle_from rb k x g)), snd (shuffle_from rb k x g))"
proof (induction k arbitrary: x g)
  case 0
  then show ?case by simp
next
  case (Suc k)
  obtain j g' where draw: "rb g (Suc k + 1) = (j, g')" by (cases "rb g (Suc k + 1)")
  from Suc.prems(1) have "fst (rb g (Suc k + 1)) < Suc k + 1"
    unfolding randbelow_in_range_def by blast
  with draw Suc.prems(2) have j: "j < length x" by simp
  let ?x = "x[Suc k := x ! j, j := x ! Suc k]"
  have swap: "(map f x)[Suc k := map f x ! j, j := map f x ! Suc k] = map f ?x"
    using j Suc.prems(2) by (simp add: map_update)
  have "shuffle_from rb k (map f ?x) g' =
     (map f (fst (shuffle_from rb k ?x g')), snd (shuffle_from rb k ?x g'))"
    using Suc.prems by (intro Suc.IH) simp_all
  with draw swap show ?case by (simp add: Let_def)
qed

lemma shuffle_length: "length (fst (shuffle rb x g)) = length x"
  by (simp add: shuffle_def shuffle_from_length)

lemma shuffle_mset: "randbelow_in_range rb \<Longrightarrow> mset (fst (shuffle rb x g)) = mset x"
  by (cases "x = []") (simp_all add: shuffle_def shuffle_from_mset)

lemma shuffle_map:
  "randbelow_in_range rb \<Longrightarrow>
   shuffle rb (map f x) g = (map f (fst (shuffle rb x g)), snd (shuffle rb x g))"
  by (cases "x = []") (simp_all add: shuffle_def shuffle_from_map)

lemma shuffle_by_index:
  assumes "randbelow_in_range rb"
  shows "fst (shuffle rb x g) = map ((!) x) (fst (shuffle rb [0..<length x] g))"
proof -
  have "shuffle rb (map ((!) x) [0..<length x]) g =
      (map ((!) x) (fst (shuffle rb [0..<length x] g)), snd (shuffle rb [0..<length x] g))"
    using assms by (rule shuffle_map)
  then show ?thesis by (simp add: map_nth)
qed


subsection \<open>The concrete instance, evaluated\<close>

lemma example_loop:
  "loop example_library ''fingerprints'' (Some [''NR-AR'', ''SR-ATAD5''])
     [Some 0, None, Some 1, Some 2] initial =
   Inr \<lparr>X = [Fingerprint [True, False], Fingerprint [False, True]],
        Y = [[1, 0], [1, 1]], counter = 4, warnings = [AttributeError]\<rparr>"
  by (simp add: iteration_def try_body_def encode_def convert_smiles_into_fingerprints_def
      example_library_def example_props_def initial_def)

lemma example_included:
  "filter (included example_library [''NR-AR'', ''SR-ATAD5'']) [Some 0, None, Some 1, Some 2] =
   [Some 0, Some 2]"
  by (simp add: included_def example_library_def example_props_def)

subsection \<open>C1: which records contribute a pair\<close>




subsection \<open>Exceptions that leave the loop\<close>

lemma iteration_Inl:
  "iteration L st props r S = Inl e \<Longrightarrow>
   (e = TypeError \<and> props = None) \<or> (e = NameError \<and> \<not> supported st)"
  by (auto simp: iteration_def try_body_def Let_def encode_Inl getitems_eq
      split: sum.splits option.splits if_splits)

lemma loop_Inl:
  "loop L st props suppl S = Inl e \<Longrightarrow>
   (e = TypeError \<and> props = None) \<or> (e = NameError \<and> \<not> supported st)"
proof (induction suppl arbitrary: S)
  case Nil
  then show ?case by simp
next
  case (Cons r rs)
  show ?case
  proof (cases "iteration L st props r S")
    case (Inl e')
    with Cons.prems have "e' = e" by simp
    with Inl show ?thesis by (auto dest: iteration_Inl)
  next
    case (Inr S1)
    with Cons.prems have "loop L st props rs S1 = Inl e" by simp
    then show ?thesis by (rule Cons.IH)
  qed
qed

lemma convert_Inl:
  "fst (convert_sdf_to_npz L sdf st props npz w) = Inl e \<Longrightarrow>
   loop L st props (SDMolSupplier L sdf) initial = Inl e \<or> e = ValueError"
proof (cases "loop L st props (SDMolSupplier L sdf) initial")
  case (Inl e')
  assume "fst (convert_sdf_to_npz L sdf st props npz w) = Inl e"
  with Inl show ?thesis by (simp add: convert_sdf_to_npz_def)
next
  case (Inr S)
  assume err: "fst (convert_sdf_to_npz L sdf st props npz w) = Inl e"
  from loop_lengths [OF Inr] have "length (X S) = length (Y S)" by (simp add: initial_def)
  with err Inr have "e = ValueError"
    by (auto simp: convert_sdf_to_npz_def unzip_def Let_def split: prod.splits if_splits)
  then show ?thesis ..
qed

subsection \<open>C5: the assertion\<close>

text \<open>
  Claim C5. Whenever the loop has run to its end, \<open>len(X) == len(Y) == len(mols)\<close>
  holds for \<open>mols = list(zip(X, Y))\<close>, and no call of \<open>convert_sdf_to_npz\<close> raises
  AssertionError.
\<close>

theorem assertion_never_fails:
  "(\<forall>S. loop L struct_type properties (SDMolSupplier L sdf_file_path) initial = Inr S \<longrightarrow>
      length (X S) = length (Y S) \<and> length (Y S) = length (zip (X S) (Y S))) \<and>
   fst (convert_sdf_to_npz L sdf_file_path struct_type properties npz_file_path w)
     \<noteq> Inl AssertionError"
proof (intro conjI allI impI)
  fix S assume "loop L struct_type properties (SDMolSupplier L sdf_file_path) initial = Inr S"
  from loop_lengths [OF this] have len: "length (X S) = length (Y S)"
    by (simp add: initial_def)
  then show "length (X S) = length (Y S)" .
  from len show "length (Y S) = length (zip (X S) (Y S))" by simp
next
  show "fst (convert_sdf_to_npz L sdf_file_path struct_type properties npz_file_path w)
     \<noteq> Inl AssertionError"
  proof
    assume "fst (convert_sdf_to_npz L sdf_file_path struct_type properties npz_file_path w)
      = Inl AssertionError"
    from convert_Inl [OF this] show False by (auto dest: loop_Inl)
  qed
qed

lemma example_supplier:
  "SDMolSupplier example_library ''a.sdf.sdf'' = [Some 0, None, Some 1, Some 2]"
  by (simp add: example_library_def)

theorem assertion_never_fails_witness:
  "(\<exists>S. loop example_library ''fingerprints'' (Some [''NR-AR'', ''SR-ATAD5''])
          (SDMolSupplier example_library ''a.sdf.sdf'') initial = Inr S \<and>
        length (X S) = 2 \<and> length (Y S) = 2 \<and> length (zip (X S) (Y S)) = 2) \<and>
   fst (convert_sdf_to_npz example_library ''a.sdf.sdf'' ''fingerprints''
          (Some [''NR-AR'', ''SR-ATAD5'']) None example_world) \<noteq> Inl AssertionError"
proof -
  let ?S = "\<lparr>X = [Fingerprint [True, False], Fingerprint [False, True]],
        Y = [[1, 0], [1, 1]], counter = 4, warnings = [AttributeError]\<rparr> :: (int, nat) locals"
  note a = assertion_never_fails [of example_library "''fingerprints''"
      "Some [''NR-AR'', ''SR-ATAD5'']" "''a.sdf.sdf''" None example_world]
  have run: "loop example_library ''fingerprints'' (Some [''NR-AR'', ''SR-ATAD5''])
          (SDMolSupplier example_library ''a.sdf.sdf'') initial = Inr ?S"
    unfolding example_supplier by (rule example_loop)
  from a [THEN conjunct1, rule_format, OF run] have "length (zip (X ?S) (Y ?S)) = 2" by simp
  with run a [THEN conjunct2] show ?thesis
    by (intro conjI exI [of _ ?S]) simp_all
qed


subsection \<open>C3: the fingerprint encoding\<close>

lemma structure_of_fingerprints:
  "structure_of L ''fingerprints'' x r \<longleftrightarrow>
   (\<exists>m. r = Some m \<and> x = Fingerprint (RDKFingerprint L (MolFromSmiles L (MolToSmiles L m))))"
  by (cases r) (auto simp: structure_of_def encode_def convert_smiles_into_fingerprints_def)

text \<open>
  Claim C3. With \<open>struct_type = 'fingerprints'\<close> (the parameter's default) the loop
  returns, and the structure stored for each included record is the list of bits of
  \<open>RDKFingerprint(MolFromSmiles(MolToSmiles(mol)))\<close> for that record's molecule.
\<close>

theorem fingerprints_structure:
  "\<exists>S. loop L ''fingerprints'' (Some ps) suppl initial = Inr S \<and>
     list_all2
       (\<lambda>x r. \<exists>m. r = Some m \<and>
          x = Fingerprint (RDKFingerprint L (MolFromSmiles L (MolToSmiles L m))))
       (X S) (filter (included L ps) suppl)"
proof -
  have "supported ''fingerprints''" by (simp add: supported_def)
  from loop_supported [OF this] obtain S where
    run: "loop L ''fingerprints'' (Some ps) suppl initial = Inr S" by blast
  from loop_rows [OF run]
  have "list_all2 (structure_of L ''fingerprints'') (X S) (filter (included L ps) suppl)"
    by (auto simp: initial_def)
  then have "list_all2
       (\<lambda>x r. \<exists>m. r = Some m \<and>
          x = Fingerprint (RDKFingerprint L (MolFromSmiles L (MolToSmiles L m))))
       (X S) (filter (included L ps) suppl)"
    by (rule list_all2_mono) (simp add: structure_of_fingerprints)
  with run show ?thesis by blast
qed

theorem fingerprints_structure_witness:
  "\<exists>S. loop example_library ''fingerprints'' (Some [''NR-AR'', ''SR-ATAD5''])
         [Some 0, None, Some 1, Some 2] initial = Inr S \<and>
     X S = [Fingerprint [True, False], Fingerprint [False, True]] \<and>
     list_all2
       (\<lambda>x r. \<exists>m. r = Some m \<and>
          x = Fingerprint (RDKFingerprint example_library
                (MolFromSmiles example_library (MolToSmiles example_library m))))
       (X S) [Some 0, Some 2]"
  using fingerprints_structure [of example_library "[''NR-AR'', ''SR-ATAD5'']"
      "[Some 0, None, Some 1, Some 2]"]
  unfolding example_loop example_included by simp

subsection \<open>C6: one pass, unparsed records skipped\<close>

text \<open>
  Claim C6. The loop handles the records one after the other in file order: a record
  that did not parse, wherever it stands, raises AttributeError in the \<open>try\<close> block, the
  handler logs it, \<open>X\<close> and \<open>Y\<close> stay as they are, and the loop goes on with the records
  after it. When the loop returns, it has run one iteration per record (the counter
  is the number of records) and logged one warning per record that did not parse.
\<close>

theorem single_pass_skipping_unparsed:
  "loop L struct_type properties (before @ None # after) S =
     (case loop L struct_type properties before S of
        Inl err \<Rightarrow> Inl err
      | Inr S1 \<Rightarrow>
          loop L struct_type properties after
            (S1\<lparr>counter := counter S1 + 1, warnings := warnings S1 @ [AttributeError]\<rparr>)) \<and>
   (\<forall>S'. loop L struct_type properties suppl S = Inr S' \<longrightarrow>
      counter S' = counter S + length suppl \<and>
      warnings S' =
        warnings S @ replicate (length (filter (\<lambda>r. r = None) suppl)) AttributeError)"
proof (intro conjI allI impI)
  show "loop L struct_type properties (before @ None # after) S =
     (case loop L struct_type properties before S of
        Inl err \<Rightarrow> Inl err
      | Inr S1 \<Rightarrow>
          loop L struct_type properties after
            (S1\<lparr>counter := counter S1 + 1, warnings := warnings S1 @ [AttributeError]\<rparr>))"
    by (simp add: loop_append iteration_None split: sum.splits)
next
  fix S' assume run: "loop L struct_type properties suppl S = Inr S'"
  from loop_counter [OF run] show "counter S' = counter S + length suppl"
    and "warnings S' =
        warnings S @ replicate (length (filter (\<lambda>r. r = None) suppl)) AttributeError"
    by simp_all
qed


lemma example_loop_head:
  "loop example_library ''fingerprints'' (Some [''NR-AR'', ''SR-ATAD5'']) [Some 0] initial =
   Inr \<lparr>X = [Fingerprint [True, False]], Y = [[1, 0]], counter = 1, warnings = []\<rparr>"
  by (simp add: iteration_def try_body_def encode_def convert_smiles_into_fingerprints_def
      example_library_def example_props_def initial_def)

theorem single_pass_skipping_unparsed_witness:
  "(\<exists>S1. loop example_library ''fingerprints'' (Some [''NR-AR'', ''SR-ATAD5'']) [Some 0] initial
          = Inr S1 \<and>
      loop example_library ''fingerprints'' (Some [''NR-AR'', ''SR-ATAD5''])
          ([Some 0] @ None # [Some 1, Some 2]) initial =
      loop example_library ''fingerprints'' (Some [''NR-AR'', ''SR-ATAD5'']) [Some 1, Some 2]
          (S1\<lparr>counter := counter S1 + 1, warnings := warnings S1 @ [AttributeError]\<rparr>)) \<and>
   (\<exists>S'. loop example_library ''fingerprints'' (Some [''NR-AR'', ''SR-ATAD5''])
          [Some 0, None, Some 1, Some 2] initial = Inr S' \<and>
      counter S' = counter (initial :: (int, nat) locals) + 4 \<and>
      warnings S' = warnings (initial :: (int, nat) locals) @ [AttributeError])"
proof -
  let ?S1 = "\<lparr>X = [Fingerprint [True, False]], Y = [[1, 0]], counter = 1, warnings = []\<rparr>
      :: (int, nat) locals"
  let ?S = "\<lparr>X = [Fingerprint [True, False], Fingerprint [False, True]],
        Y = [[1, 0], [1, 1]], counter = 4, warnings = [AttributeError]\<rparr> :: (int, nat) locals"
  note t = single_pass_skipping_unparsed [of example_library "''fingerprints''"
      "Some [''NR-AR'', ''SR-ATAD5'']" "[Some 0]" "[Some 1, Some 2]" initial
      "[Some 0, None, Some 1, Some 2]"]
  from t [THEN conjunct1] have first:
    "loop example_library ''fingerprints'' (Some [''NR-AR'', ''SR-ATAD5''])
          ([Some 0] @ None # [Some 1, Some 2]) initial =
      loop example_library ''fingerprints'' (Some [''NR-AR'', ''SR-ATAD5'']) [Some 1, Some 2]
          (?S1\<lparr>counter := counter ?S1 + 1, warnings := warnings ?S1 @ [AttributeError]\<rparr>)"
    unfolding example_loop_head by simp
  from t [THEN conjunct2, rule_format, OF example_loop]
  have second: "counter ?S = counter (initial :: (int, nat) locals) + 4 \<and>
      warnings ?S = warnings (initial :: (int, nat) locals) @ [AttributeError]"
    by simp
  show ?thesis
  proof (intro conjI)
    show "\<exists>S1. loop example_library ''fingerprints'' (Some [''NR-AR'', ''SR-ATAD5'']) [Some 0]
          initial = Inr S1 \<and>
      loop example_library ''fingerprints'' (Some [''NR-AR'', ''SR-ATAD5''])
          ([Some 0] @ None # [Some 1, Some 2]) initial =
      loop example_library ''fingerprints'' (Some [''NR-AR'', ''SR-ATAD5'']) [Some 1, Some 2]
          (S1\<lparr>counter := counter S1 + 1, warnings := warnings S1 @ [AttributeError]\<rparr>)"
      using example_loop_head first by (intro exI [of _ ?S1] conjI)
    show "\<exists>S'. loop example_library ''fingerprints'' (Some [''NR-AR'', ''SR-ATAD5''])
          [Some 0, None, Some 1, Some 2] initial = Inr S' \<and>
      counter S' = counter (initial :: (int, nat) locals) + 4 \<and>
      warnings S' = warnings (initial :: (int, nat) locals) @ [AttributeError]"
      using example_loop second by (intro exI [of _ ?S]) (rule conjI)
  qed
qed

subsection \<open>C9: no record passes the filter\<close>

text \<open>
  Claim C9. If no record of the file passes the filter, \<open>convert_sdf_to_npz\<close> raises
  ValueError, at \<open>X, Y = zip(*mols)\<close> on the empty list, and leaves the files and the
  generator as they were: no file is saved.
\<close>

theorem empty_dataset_raises:
  "filter (included L ps) (SDMolSupplier L sdf_file_path) = [] \<Longrightarrow>
   convert_sdf_to_npz L sdf_file_path struct_type (Some ps) npz_file_path w
     = (Inl ValueError, w)"
proof -
  assume "filter (included L ps) (SDMolSupplier L sdf_file_path) = []"
  from loop_none_included [OF this, of struct_type initial] obtain S where
    "loop L struct_type (Some ps) (SDMolSupplier L sdf_file_path) initial = Inr S"
    and "X S = []"
    by (auto simp: initial_def)
  then show ?thesis by (rule convert_empty)
qed

theorem empty_dataset_raises_witness:
  "filter (included example_library [''NR-ER-LBD''])
     (SDMolSupplier example_library ''a.sdf.sdf'') = [] \<and>
   convert_sdf_to_npz example_library ''a.sdf.sdf'' ''fingerprints'' (Some [''NR-ER-LBD''])
     None example_world = (Inl ValueError, example_world) \<and>
   files (snd (convert_sdf_to_npz example_library ''a.sdf.sdf'' ''fingerprints''
     (Some [''NR-ER-LBD'']) None example_world)) = Map.empty"
proof -
  have none: "filter (included example_library [''NR-ER-LBD''])
     (SDMolSupplier example_library ''a.sdf.sdf'') = []"
    by (simp add: included_def example_library_def example_props_def)
  from empty_dataset_raises [OF none, of "''fingerprints''" None example_world] none
  show ?thesis by (simp add: example_world_def)
qed

subsection \<open>C4: unsupported structure types\<close>

text \<open>
  As claim C4 is written, every call with another structure type raises NameError.
  On a file where no record passes the filter the \<open>raise\<close> is never reached: the call
  raises ValueError at the unzip instead.
\<close>

theorem unsupported_struct_type_counterexample:
  "\<not> supported ''3Dimg'' \<and>
   fst (convert_sdf_to_npz example_library ''a.sdf.sdf'' ''3Dimg'' (Some [''NR-ER-LBD''])
          None example_world) = Inl ValueError \<and>
   fst (convert_sdf_to_npz example_library ''a.sdf.sdf'' ''3Dimg'' (Some [''NR-ER-LBD''])
          None example_world) \<noteq> Inl NameError"
  by (simp add: supported_def convert_sdf_to_npz_def iteration_def try_body_def
      example_library_def example_props_def example_world_def initial_def shuffle_def unzip_def)

text \<open>
  Claim C4, amended. For a structure type other than \<open>'fingerprints'\<close> and \<open>'2Dimg'\<close> and
  a list of requested properties, \<open>convert_sdf_to_npz\<close> raises NameError exactly when some
  record of the file parses and has every requested property; when none does it raises
  ValueError; either way nothing is saved. For the two supported structure types it
  never raises NameError.
\<close>

theorem unsupported_struct_type:
  "(\<not> supported struct_type \<longrightarrow>
      convert_sdf_to_npz L sdf_file_path struct_type (Some ps) npz_file_path w =
        (Inl (if filter (included L ps) (SDMolSupplier L sdf_file_path) = []
              then ValueError else NameError), w)) \<and>
   (supported struct_type \<longrightarrow>
      fst (convert_sdf_to_npz L sdf_file_path struct_type properties npz_file_path w)
        \<noteq> Inl NameError)"
proof (intro conjI impI)
  assume no: "\<not> supported struct_type"
  show "convert_sdf_to_npz L sdf_file_path struct_type (Some ps) npz_file_path w =
        (Inl (if filter (included L ps) (SDMolSupplier L sdf_file_path) = []
              then ValueError else NameError), w)"
  proof (cases "filter (included L ps) (SDMolSupplier L sdf_file_path) = []")
    case True
    from loop_none_included [OF this, of struct_type initial] obtain S where
      "loop L struct_type (Some ps) (SDMolSupplier L sdf_file_path) initial = Inr S"
      and "X S = []"
      by (auto simp: initial_def)
    then have "convert_sdf_to_npz L sdf_file_path struct_type (Some ps) npz_file_path w
      = (Inl ValueError, w)" by (rule convert_empty)
    with True show ?thesis by simp
  next
    case False
    from loop_NameError [OF no False]
    have "loop L struct_type (Some ps) (SDMolSupplier L sdf_file_path) initial = Inl NameError" .
    with False show ?thesis by (simp add: convert_sdf_to_npz_def)
  qed
next
  assume yes: "supported struct_type"
  show "fst (convert_sdf_to_npz L sdf_file_path struct_type properties npz_file_path w)
        \<noteq> Inl NameError"
  proof
    assume "fst (convert_sdf_to_npz L sdf_file_path struct_type properties npz_file_path w)
        = Inl NameError"
    from convert_Inl [OF this] yes show False by (auto dest: loop_Inl)
  qed
qed

theorem unsupported_struct_type_witness:
  "\<not> supported ''3Dimg'' \<and> supported ''2Dimg'' \<and>
   filter (included example_library [''NR-AR'']) (SDMolSupplier example_library ''a.sdf.sdf'')
     \<noteq> [] \<and>
   convert_sdf_to_npz example_library ''a.sdf.sdf'' ''3Dimg'' (Some [''NR-AR'']) None
     example_world = (Inl NameError, example_world) \<and>
   fst (convert_sdf_to_npz example_library ''a.sdf.sdf'' ''2Dimg'' (Some [''NR-AR'']) None
     example_world) \<noteq> Inl NameError"
proof -
  have no: "\<not> supported ''3Dimg''" and yes: "supported ''2Dimg''"
    by (simp_all add: supported_def)
  have some: "filter (included example_library [''NR-AR''])
      (SDMolSupplier example_library ''a.sdf.sdf'') \<noteq> []"
    by (simp add: included_def example_library_def example_props_def)
  from unsupported_struct_type [where struct_type = "''3Dimg''" and L = example_library
      and ps = "[''NR-AR'']" and sdf_file_path = "''a.sdf.sdf''" and npz_file_path = None
      and w = example_world, THEN conjunct1, rule_format, OF no] some
  have "convert_sdf_to_npz example_library ''a.sdf.sdf'' ''3Dimg'' (Some [''NR-AR'']) None
     example_world = (Inl NameError, example_world)" by simp
  moreover from unsupported_struct_type [where struct_type = "''2Dimg''"
      and L = example_library and properties = "Some [''NR-AR'']"
      and sdf_file_path = "''a.sdf.sdf''" and npz_file_path = None and w = example_world,
      THEN conjunct2, rule_format, OF yes]
  have "fst (convert_sdf_to_npz example_library ''a.sdf.sdf'' ''2Dimg'' (Some [''NR-AR'']) None
     example_world) \<noteq> Inl NameError" .
  ultimately show ?thesis using no yes some by (intro conjI)
qed


subsection \<open>What a successful call saves\<close>

lemma convert_Inr:
  assumes "convert_sdf_to_npz L sdf st props npz w = (Inr (), w')"
  shows "\<exists>x y. files w' =
     (files w)(savez_file (py_or npz (replace ''.sdf'' (npz_suffix st) sdf)) \<mapsto> (x, y))"
proof (cases "loop L st props (SDMolSupplier L sdf) initial")
  case (Inl e)
  with assms show ?thesis by (simp add: convert_sdf_to_npz_def)
next
  case (Inr S)
  with assms obtain mols' g' where
    "w' = w\<lparr>rng := g',
       files := (files w)(savez_file (py_or npz (replace ''.sdf'' (npz_suffix st) sdf)) \<mapsto>
         (np_array_X L (map fst mols'), np_array_Y L (map snd mols')))\<rparr>"
    by (auto simp: convert_sdf_to_npz_def unzip_def Let_def split: prod.splits if_splits)
  then have "files w' =
     (files w)(savez_file (py_or npz (replace ''.sdf'' (npz_suffix st) sdf)) \<mapsto>
       (np_array_X L (map fst mols'), np_array_Y L (map snd mols')))"
    by simp
  then show ?thesis by (intro exI)
qed

lemma shuffle_snd_by_index:
  assumes "randbelow_in_range rb"
  shows "snd (shuffle rb x g) = snd (shuffle rb [0..<length x] g)"
proof -
  have "shuffle rb (map ((!) x) [0..<length x]) g =
      (map ((!) x) (fst (shuffle rb [0..<length x] g)), snd (shuffle rb [0..<length x] g))"
    using assms by (rule shuffle_map)
  then show ?thesis by (simp add: map_nth)
qed

lemma shuffle_indices:
  assumes "randbelow_in_range rb"
  shows "set (fst (shuffle rb [0..<n] g)) = {0..<n}"
proof -
  have "mset (fst (shuffle rb [0..<n] g)) = mset [0..<n]"
    using assms by (rule shuffle_mset)
  then show ?thesis by (metis mset_eq_setD set_upt)
qed

lemma map_fst_nth_zip:
  "length xs = length ys \<Longrightarrow> \<forall>i \<in> set p. i < length xs \<Longrightarrow>
   map fst (map ((!) (zip xs ys)) p) = map ((!) xs) p \<and>
   map snd (map ((!) (zip xs ys)) p) = map ((!) ys) p"
  by simp

lemma zip_map_nth:
  "length xs = length ys \<Longrightarrow> \<forall>i \<in> set p. i < length xs \<Longrightarrow>
   zip (map ((!) xs) p) (map ((!) ys) p) = map ((!) (zip xs ys)) p"
  by (induction p) simp_all

text \<open>
  A call of \<open>convert_sdf_to_npz\<close> is the reference call from the generator state and
  the files of its world.
\<close>

lemma convert_reference:
  assumes ok: "randbelow_in_range (randbelow L)"
  shows "convert_sdf_to_npz L sdf st props npz w =
     reference_call L (sdf, st, props, npz) (rng w) (files w)"
proof (cases "loop L st props (SDMolSupplier L sdf) initial")
  case (Inl e)
  then show ?thesis by (cases w) (simp add: convert_sdf_to_npz_def reference_call_def)
next
  case (Inr S)
  from loop_lengths [OF Inr] have len: "length (X S) = length (Y S)"
    by (simp add: initial_def)
  show ?thesis
  proof (cases "X S = []")
    case True
    with len have "Y S = []" by simp
    with True Inr show ?thesis
      by (cases w)
        (simp add: convert_sdf_to_npz_def reference_call_def shuffle_Nil unzip_def)
  next
    case False
    define mols where "mols = zip (X S) (Y S)"
    define p where "p = fst (shuffle (randbelow L) [0..<length (X S)] (rng w))"
    have n: "length mols = length (X S)" using len by (simp add: mols_def)
    have sh: "fst (shuffle (randbelow L) mols (rng w)) = map ((!) mols) p"
      unfolding p_def n [symmetric] using ok by (rule shuffle_by_index)
    have g: "snd (shuffle (randbelow L) mols (rng w)) =
        snd (shuffle (randbelow L) [0..<length (X S)] (rng w))"
      unfolding n [symmetric] using ok by (rule shuffle_snd_by_index)
    have "set p = {0..<length (X S)}" unfolding p_def using ok by (rule shuffle_indices)
    then have bound: "\<forall>i \<in> set p. i < length (X S)" by simp
    from map_fst_nth_zip [OF len bound]
    have x: "map fst (map ((!) mols) p) = map ((!) (X S)) p"
      and y: "map snd (map ((!) mols) p) = map ((!) (Y S)) p"
      by (simp_all add: mols_def)
    have "length (map ((!) mols) p) = length mols"
      unfolding sh [symmetric] by (rule shuffle_length)
    with n False have ne: "map ((!) mols) p \<noteq> []" by auto
    obtain mols' g' where s: "shuffle (randbelow L) mols (rng w) = (mols', g')"
      by (cases "shuffle (randbelow L) mols (rng w)")
    with sh g have mols': "mols' = map ((!) mols) p"
      and g': "g' = snd (shuffle (randbelow L) [0..<length (X S)] (rng w))"
      by simp_all
    have fx: "map fst mols' = map ((!) (X S)) p" unfolding mols' by (rule x)
    have fy: "map snd mols' = map ((!) (Y S)) p" unfolding mols' by (rule y)
    have conv: "convert_sdf_to_npz L sdf st props npz w =
       (Inr (),
        w\<lparr>rng := g',
          files := (files w)(savez_file (py_or npz (replace ''.sdf'' (npz_suffix st) sdf)) \<mapsto>
            (np_array_X L (map fst mols'), np_array_Y L (map snd mols')))\<rparr>)"
      using Inr len n s ne
      by (simp add: convert_sdf_to_npz_def mols_def [symmetric] unzip_def mols')
    have ref: "reference_call L (sdf, st, props, npz) (rng w) (files w) =
       (Inr (),
        \<lparr>files = (files w)(savez_file (py_or npz (replace ''.sdf'' (npz_suffix st) sdf)) \<mapsto>
            (np_array_X L (map ((!) (X S)) p), np_array_Y L (map ((!) (Y S)) p))),
         rng = g'\<rparr>)"
      using Inr False by (simp add: reference_call_def Let_def p_def g')
    show ?thesis unfolding conv ref fx fy by (cases w) simp
  qed
qed

lemma example_convert:
  "convert_sdf_to_npz example_library ''a.sdf.sdf'' ''fingerprints''
     (Some [''NR-AR'', ''SR-ATAD5'']) None example_world =
   (Inr (),
    \<lparr>files = [''a_fingerprints.npz_fingerprints.npz'' \<mapsto>
        ([Fingerprint [False, True], Fingerprint [True, False]], [[1, 1], [1, 0]])],
     rng = 1\<rparr>)"
  by (simp add: convert_sdf_to_npz_def iteration_def try_body_def encode_def
      convert_smiles_into_fingerprints_def example_library_def example_props_def
      example_world_def initial_def shuffle_def unzip_def py_or_def npz_suffix_def
      np_array_X_def np_array_Y_def savez_file_def suffix_to_prefix)

lemma example_convert_named:
  "convert_sdf_to_npz example_library ''a.sdf.sdf'' ''2Dimg''
     (Some [''NR-AR'', ''SR-ATAD5'']) (Some ''out.npz'') example_world =
   (Inr (),
    \<lparr>files = [''out.npz'' \<mapsto> ([Image2D 802, Image2D 800], [[1, 1], [1, 0]])], rng = 1\<rparr>)"
  by (simp add: convert_sdf_to_npz_def iteration_def try_body_def encode_def
      convert_smiles_into_2d_structure_images_def example_library_def example_props_def
      example_world_def initial_def shuffle_def unzip_def py_or_def npz_suffix_def
      np_array_X_def np_array_Y_def savez_file_def suffix_to_prefix)

lemma example_convert_out:
  "convert_sdf_to_npz example_library ''a.sdf.sdf'' ''2Dimg''
     (Some [''NR-AR'', ''SR-ATAD5'']) (Some ''out'') example_world =
   (Inr (),
    \<lparr>files = [''out.npz'' \<mapsto> ([Image2D 802, Image2D 800], [[1, 1], [1, 0]])], rng = 1\<rparr>)"
  by (simp add: convert_sdf_to_npz_def iteration_def try_body_def encode_def
      convert_smiles_into_2d_structure_images_def example_library_def example_props_def
      example_world_def initial_def shuffle_def unzip_def py_or_def npz_suffix_def
      np_array_X_def np_array_Y_def savez_file_def suffix_to_prefix)



subsection \<open>C8: the output path\<close>

text \<open>
  \<open>replace\<close> rewrites every occurrence, from the left: a string without an occurrence
  of \<open>old\<close> is returned as it is, and at the leftmost occurrence the text before it is
  kept, \<open>new\<close> is written for \<open>old\<close>, and the rest is treated the same way.
\<close>

lemma replace_no_occurrence:
  "old \<noteq> [] \<Longrightarrow> \<forall>a b. s \<noteq> a @ old @ b \<Longrightarrow> replace old new s = s"
proof (induction s)
  case Nil
  then show ?case by simp
next
  case (Cons c cs)
  have "take (length old) (c # cs) \<noteq> old"
  proof
    assume "take (length old) (c # cs) = old"
    then have "c # cs = [] @ old @ drop (length old) (c # cs)"
      by (metis append_Nil append_take_drop_id)
    with Cons.prems(2) show False by blast
  qed
  moreover have "\<forall>a b. cs \<noteq> a @ old @ b"
  proof (intro allI notI)
    fix a b assume "cs = a @ old @ b"
    then have "c # cs = (c # a) @ old @ b" by simp
    with Cons.prems(2) show False by blast
  qed
  ultimately show ?case using Cons.IH Cons.prems(1) by simp
qed

lemma replace_leftmost:
  "old \<noteq> [] \<Longrightarrow> \<forall>a b. p @ old @ s = a @ old @ b \<longrightarrow> length p \<le> length a \<Longrightarrow>
   replace old new (p @ old @ s) = p @ new @ replace old new s"
proof (induction p)
  case Nil
  then obtain c cs where old: "old = c # cs" by (cases old) auto
  then show ?case by simp
next
  case (Cons c p)
  have "take (length old) (c # p @ old @ s) \<noteq> old"
  proof
    assume "take (length old) (c # p @ old @ s) = old"
    then have "(c # p) @ old @ s = [] @ old @ drop (length old) (c # p @ old @ s)"
      by (metis append_Cons append_Nil append_take_drop_id)
    with Cons.prems(2) have "length (c # p) \<le> length ([] :: string)" by blast
    then show False by simp
  qed
  moreover have "\<forall>a b. p @ old @ s = a @ old @ b \<longrightarrow> length p \<le> length a"
  proof (intro allI impI)
    fix a b assume "p @ old @ s = a @ old @ b"
    then have "(c # p) @ old @ s = (c # a) @ old @ b" by simp
    with Cons.prems(2) have "length (c # p) \<le> length (c # a)" by blast
    then show "length p \<le> length a" by simp
  qed
  ultimately show ?case using Cons.IH Cons.prems(1) by simp
qed

lemma replaced_all_unique:
  "replaced_all old new s t \<Longrightarrow> old \<noteq> [] \<Longrightarrow> t = replace old new s"
proof (induction rule: replaced_all.induct)
  case (no_occurrence s)
  then show ?case by (simp add: replace_no_occurrence)
next
  case (leftmost p r r')
  then show ?case by (simp add: replace_leftmost)
qed

lemma replaced_all_Cons:
  assumes "replaced_all old new cs t" and "old \<noteq> []"
    and "take (length old) (c # cs) \<noteq> old"
  shows "replaced_all old new (c # cs) (c # t)"
  using assms(1)
proof (cases rule: replaced_all.cases)
  case no_occurrence
  have "\<forall>a b. c # cs \<noteq> a @ old @ b"
  proof (intro allI notI)
    fix a b assume eq: "c # cs = a @ old @ b"
    show False
    proof (cases a)
      case Nil
      with eq have "take (length old) (c # cs) = old" by simp
      with assms(3) show False by simp
    next
      case (Cons c' a')
      with eq have "cs = a' @ old @ b" by simp
      with no_occurrence(2) show False by blast
    qed
  qed
  then have "replaced_all old new (c # cs) (c # cs)" by (rule replaced_all.no_occurrence)
  with no_occurrence(1) show ?thesis by simp
next
  case (leftmost p r r')
  have "\<forall>a b. (c # p) @ old @ r = a @ old @ b \<longrightarrow> length (c # p) \<le> length a"
  proof (intro allI impI)
    fix a b assume eq: "(c # p) @ old @ r = a @ old @ b"
    show "length (c # p) \<le> length a"
    proof (cases a)
      case Nil
      with eq leftmost(1) have "take (length old) (c # cs) = old" by simp
      with assms(3) show ?thesis by simp
    next
      case (Cons c' a')
      with eq have "p @ old @ r = a' @ old @ b" by simp
      with leftmost(3) have "length p \<le> length a'" by blast
      with Cons show ?thesis by simp
    qed
  qed
  from replaced_all.leftmost [OF this leftmost(4)] leftmost(1,2) show ?thesis by simp
qed

lemma replace_replaced_all: "old \<noteq> [] \<Longrightarrow> replaced_all old new s (replace old new s)"
proof (induction old new s rule: replace.induct)
  case (1 old new)
  then have "\<forall>a b. ([] :: string) \<noteq> a @ old @ b" by simp
  then have "replaced_all old new [] []" by (rule replaced_all.no_occurrence)
  with 1 show ?case by simp
next
  case (2 old new c cs)
  show ?case
  proof (cases "take (length old) (c # cs) = old")
    case True
    define r where "r = drop (length old - 1) cs"
    from True "2.prems" have s: "c # cs = [] @ old @ r"
      by (metis r_def append_Nil append_take_drop_id drop_Cons' length_0_conv)
    have "replaced_all old new r (replace old new r)"
      unfolding r_def by (rule "2.IH"(2) [OF "2.prems" True "2.prems"])
    moreover have "\<forall>a b. [] @ old @ r = a @ old @ b \<longrightarrow> length ([] :: string) \<le> length a"
      by simp
    ultimately have step: "replaced_all old new ([] @ old @ r) ([] @ new @ replace old new r)"
      by (rule replaced_all.leftmost [rotated])
    have "replaced_all old new (c # cs) ([] @ new @ replace old new r)"
      by (subst s) (rule step)
    moreover have "replace old new (c # cs) = [] @ new @ replace old new r"
      using True "2.prems" by (simp add: r_def)
    ultimately show ?thesis by (simp only:)
  next
    case False
    have "replaced_all old new cs (replace old new cs)"
      by (rule "2.IH"(3) [OF "2.prems" False "2.prems"])
    from replaced_all_Cons [OF this "2.prems" False] False "2.prems" show ?thesis by simp
  qed
qed


text \<open>
  As claim C8 is written, a string given as \<open>npz_file_path\<close> is the path of the saved
  file. \<open>np.savez\<close> appends \<open>.npz\<close> to a name that does not end with it: with
  \<open>npz_file_path = 'out'\<close> the call returns, no file \<open>out\<close> exists afterwards, and the
  arrays are in \<open>out.npz\<close>.
\<close>

theorem output_path_counterexample:
  "fst (convert_sdf_to_npz example_library ''a.sdf.sdf'' ''2Dimg''
          (Some [''NR-AR'', ''SR-ATAD5'']) (Some ''out'') example_world) = Inr () \<and>
   files (snd (convert_sdf_to_npz example_library ''a.sdf.sdf'' ''2Dimg''
          (Some [''NR-AR'', ''SR-ATAD5'']) (Some ''out'') example_world)) ''out'' = None \<and>
   files (snd (convert_sdf_to_npz example_library ''a.sdf.sdf'' ''2Dimg''
          (Some [''NR-AR'', ''SR-ATAD5'']) (Some ''out'') example_world)) ''out.npz'' =
     Some ([Image2D 802, Image2D 800], [[1, 1], [1, 0]])"
  unfolding example_convert_out by simp

text \<open>
  Claim C8, amended. A call that saves hands to \<open>np.savez\<close> a name \<open>N\<close>: when
  \<open>npz_file_path\<close> is \<open>None\<close>, \<open>sdf_file_path\<close> with every occurrence of \<open>.sdf\<close> replaced by
  \<open>_<struct_type>.npz\<close>; when \<open>npz_file_path\<close> is a string that is not empty, that string.
  The output is saved to \<open>N\<close> when \<open>N\<close> ends with \<open>.npz\<close> and to \<open>N\<close> followed by \<open>.npz\<close>
  otherwise; no other file changes.
\<close>

theorem output_path:
  assumes "convert_sdf_to_npz L sdf_file_path struct_type properties npz_file_path w
             = (Inr (), w')"
  shows "(npz_file_path = None \<longrightarrow>
            (\<exists>N x y. replaced_all ''.sdf'' (''_'' @ struct_type @ ''.npz'') sdf_file_path N \<and>
               files w' =
                 (files w)((if suffix ''.npz'' N then N else N @ ''.npz'') \<mapsto> (x, y)))) \<and>
         (\<forall>N. npz_file_path = Some N \<and> N \<noteq> [] \<longrightarrow>
            (\<exists>x y. files w' =
               (files w)((if suffix ''.npz'' N then N else N @ ''.npz'') \<mapsto> (x, y))))"
proof -
  from convert_Inr [OF assms] obtain x y where f:
    "files w' = (files w)(savez_file (py_or npz_file_path
        (replace ''.sdf'' (npz_suffix struct_type) sdf_file_path)) \<mapsto> (x, y))"
    by blast
  have r: "replaced_all ''.sdf'' (''_'' @ struct_type @ ''.npz'') sdf_file_path
      (replace ''.sdf'' (''_'' @ struct_type @ ''.npz'') sdf_file_path)"
    by (rule replace_replaced_all) simp
  show ?thesis
  proof (intro conjI allI impI)
    assume "npz_file_path = None"
    with f have "files w' =
        (files w)((if suffix ''.npz'' (replace ''.sdf'' (''_'' @ struct_type @ ''.npz'') sdf_file_path)
                   then replace ''.sdf'' (''_'' @ struct_type @ ''.npz'') sdf_file_path
                   else replace ''.sdf'' (''_'' @ struct_type @ ''.npz'') sdf_file_path @ ''.npz'')
          \<mapsto> (x, y))"
      by (simp add: py_or_def npz_suffix_def savez_file_def)
    with r show "\<exists>N x y. replaced_all ''.sdf'' (''_'' @ struct_type @ ''.npz'') sdf_file_path N \<and>
               files w' =
                 (files w)((if suffix ''.npz'' N then N else N @ ''.npz'') \<mapsto> (x, y))"
      by (intro exI conjI)
  next
    fix N assume "npz_file_path = Some N \<and> N \<noteq> []"
    with f have "files w' =
        (files w)((if suffix ''.npz'' N then N else N @ ''.npz'') \<mapsto> (x, y))"
      by (simp add: py_or_def savez_file_def)
    then show "\<exists>x y. files w' =
        (files w)((if suffix ''.npz'' N then N else N @ ''.npz'') \<mapsto> (x, y))"
      by (intro exI)
  qed
qed

theorem output_path_witness:
  "replaced_all ''.sdf'' (''_'' @ ''fingerprints'' @ ''.npz'') ''a.sdf.sdf''
     ''a_fingerprints.npz_fingerprints.npz'' \<and>
   (\<exists>w' x y. convert_sdf_to_npz example_library ''a.sdf.sdf'' ''fingerprints''
        (Some [''NR-AR'', ''SR-ATAD5'']) None example_world = (Inr (), w') \<and>
      files w' = (files example_world)(''a_fingerprints.npz_fingerprints.npz'' \<mapsto> (x, y))) \<and>
   (\<exists>w' x y. convert_sdf_to_npz example_library ''a.sdf.sdf'' ''2Dimg''
        (Some [''NR-AR'', ''SR-ATAD5'']) (Some ''out'') example_world = (Inr (), w') \<and>
      files w' = (files example_world)(''out.npz'' \<mapsto> (x, y)))"
proof -
  from output_path [OF example_convert, THEN conjunct1, rule_format, OF refl]
  obtain N x y where N: "replaced_all ''.sdf'' (''_'' @ ''fingerprints'' @ ''.npz'') ''a.sdf.sdf'' N"
    and f: "files \<lparr>files = [''a_fingerprints.npz_fingerprints.npz'' \<mapsto>
        ([Fingerprint [False, True], Fingerprint [True, False]], [[1, 1], [1, 0 :: int]])],
        rng = 1 :: nat\<rparr> = (files example_world)((if suffix ''.npz'' N then N else N @ ''.npz'')
          \<mapsto> (x :: nat struct list, y))"
    by blast
  from replaced_all_unique [OF N]
  have N': "N = ''a_fingerprints.npz_fingerprints.npz''" by simp
  have r: "replaced_all ''.sdf'' (''_'' @ ''fingerprints'' @ ''.npz'') ''a.sdf.sdf''
     ''a_fingerprints.npz_fingerprints.npz''"
    using N unfolding N' .
  let ?W = "\<lparr>files = [''a_fingerprints.npz_fingerprints.npz'' \<mapsto>
        ([Fingerprint [False, True], Fingerprint [True, False]], [[1, 1], [1, 0 :: int]])],
        rng = 1 :: nat\<rparr>"
  from f have f': "files ?W =
      (files example_world)(''a_fingerprints.npz_fingerprints.npz'' \<mapsto> (x, y))"
    unfolding N' by (simp add: suffix_to_prefix)
  have a: "\<exists>w' x y. convert_sdf_to_npz example_library ''a.sdf.sdf'' ''fingerprints''
        (Some [''NR-AR'', ''SR-ATAD5'']) None example_world = (Inr (), w') \<and>
      files w' = (files example_world)(''a_fingerprints.npz_fingerprints.npz'' \<mapsto> (x, y))"
    using example_convert f' by (intro exI [of _ ?W] exI [of _ x] exI [of _ y] conjI)
  from output_path [OF example_convert_out, THEN conjunct2, rule_format, of "''out''"]
  have b: "\<exists>w' x y. convert_sdf_to_npz example_library ''a.sdf.sdf'' ''2Dimg''
        (Some [''NR-AR'', ''SR-ATAD5'']) (Some ''out'') example_world = (Inr (), w') \<and>
      files w' = (files example_world)(''out.npz'' \<mapsto> (x, y))"
    using example_convert_out by (auto simp: suffix_to_prefix)
  from r a b show ?thesis by (intro conjI)
qed


subsection \<open>C2: the shuffle keeps the pairs together\<close>

lemma example_randbelow: "randbelow_in_range (randbelow example_library)"
  by (simp add: randbelow_in_range_def example_library_def)

lemma mixed_loop:
  "loop mixed_library ''fingerprints'' (Some [''Experimental logP''])
     (SDMolSupplier mixed_library ''m.sdf'') initial =
   Inr \<lparr>X = [Fingerprint [True, False], Fingerprint [False, True]],
        Y = [[Inl 1], [Inr ''inconclusive'']], counter = 2, warnings = []\<rparr>"
  by (simp add: iteration_def try_body_def encode_def convert_smiles_into_fingerprints_def
      mixed_library_def initial_def)

lemma str_int_1: "str_int 1 = ''1''"
  by (simp add: str_int_def)

lemma mixed_convert:
  "convert_sdf_to_npz mixed_library ''m.sdf'' ''fingerprints'' (Some [''Experimental logP''])
     None mixed_world =
   (Inr (),
    \<lparr>files = [''m_fingerprints.npz'' \<mapsto>
        ([Fingerprint [False, True], Fingerprint [True, False]],
         [[Inr ''inconclusive''], [Inr ''1'']])],
     rng = 1\<rparr>)"
  unfolding convert_sdf_to_npz_def Let_def mixed_loop
  by (simp add: mixed_library_def mixed_world_def shuffle_def unzip_def py_or_def
      npz_suffix_def np_array_X_def np_array_Y_def savez_file_def suffix_to_prefix str_int_1
      del: decimal.simps)

text \<open>
  As claim C2 is written, the saved pairs are, as a multiset, the filtered pairs. The
  lists go through \<open>np.array\<close> before they are saved, and \<open>np.array\<close> gives all entries of
  an array one element type: with the labels \<open>1\<close> and \<open>'inconclusive'\<close> the first record's
  pair is filtered with the label \<open>1\<close> and saved with the label \<open>'1'\<close>.
\<close>

theorem shuffle_keeps_pairs_counterexample:
  "randbelow_in_range (randbelow mixed_library) \<and>
   (\<exists>S x y.
      loop mixed_library ''fingerprints'' (Some [''Experimental logP''])
        (SDMolSupplier mixed_library ''m.sdf'') initial = Inr S \<and>
      files (snd (convert_sdf_to_npz mixed_library ''m.sdf'' ''fingerprints''
        (Some [''Experimental logP'']) None mixed_world)) ''m_fingerprints.npz'' = Some (x, y) \<and>
      (Fingerprint [True, False], [Inl 1]) \<in> set (zip (X S) (Y S)) \<and>
      (Fingerprint [True, False], [Inl 1]) \<notin> set (zip x y) \<and>
      (Fingerprint [True, False], [Inr ''1'']) \<in> set (zip x y) \<and>
      mset (zip x y) \<noteq> mset (zip (X S) (Y S)))"
proof -
  let ?S = "\<lparr>X = [Fingerprint [True, False], Fingerprint [False, True]],
        Y = [[Inl 1], [Inr ''inconclusive'']], counter = 2, warnings = []\<rparr>
        :: (int + string, nat) locals"
  let ?x = "[Fingerprint [False, True], Fingerprint [True, False]] :: nat struct list"
  let ?y = "[[Inr ''inconclusive''], [Inr ''1'']] :: (int + string) list list"
  have ok: "randbelow_in_range (randbelow mixed_library)"
    by (simp add: randbelow_in_range_def mixed_library_def)
  have f: "files (snd (convert_sdf_to_npz mixed_library ''m.sdf'' ''fingerprints''
        (Some [''Experimental logP'']) None mixed_world)) ''m_fingerprints.npz'' = Some (?x, ?y)"
    unfolding mixed_convert by simp
  have a: "(Fingerprint [True, False], [Inl 1]) \<in> set (zip (X ?S) (Y ?S))" by simp
  have b: "(Fingerprint [True, False], [Inl 1]) \<notin> set (zip ?x ?y)" by simp
  have c: "(Fingerprint [True, False], [Inr ''1'']) \<in> set (zip ?x ?y)" by simp
  have d: "mset (zip ?x ?y) \<noteq> mset (zip (X ?S) (Y ?S))"
  proof
    assume "mset (zip ?x ?y) = mset (zip (X ?S) (Y ?S))"
    then have "set (zip ?x ?y) = set (zip (X ?S) (Y ?S))" by (rule mset_eq_setD)
    with a b show False by blast
  qed
  from ok mixed_loop f a b c d show ?thesis
    by (intro conjI exI [of _ ?S] exI [of _ ?x] exI [of _ ?y])
qed

text \<open>
  Claim C2, amended. Given the contract of \<open>randbelow\<close>, a call that saves stores
  \<open>x = np.array(X')\<close> and \<open>y = np.array(Y')\<close>, where \<open>X'\<close> and \<open>Y'\<close> are the filtered lists \<open>X\<close>
  and \<open>Y\<close> read in one and the same rearrangement \<open>p\<close> of their indices; so \<open>X'\<close> and \<open>Y'\<close>
  hold, as a multiset of pairs, the filtered pairs, \<open>x\<close> and \<open>y\<close> have equal length, and
  the saved pairs are the filtered pairs with every entry converted by \<open>np.array\<close> to the
  element type of its array: no structure is paired with another record's labels.
\<close>

theorem shuffle_keeps_pairs:
  assumes "randbelow_in_range (randbelow L)"
    and "convert_sdf_to_npz L sdf_file_path struct_type properties npz_file_path w
           = (Inr (), w')"
  shows "\<exists>S p X' Y' x y.
     loop L struct_type properties (SDMolSupplier L sdf_file_path) initial = Inr S \<and>
     mset p = mset [0..<length (X S)] \<and>
     X' = map ((!) (X S)) p \<and> Y' = map ((!) (Y S)) p \<and>
     mset (zip X' Y') = mset (zip (X S) (Y S)) \<and>
     files w' (savez_file (py_or npz_file_path
         (replace ''.sdf'' (npz_suffix struct_type) sdf_file_path))) = Some (x, y) \<and>
     x = map (astype_X L X') X' \<and> y = map (map (astype_Y L Y')) Y' \<and>
     length x = length y \<and>
     mset (zip x y) =
       image_mset (\<lambda>(a, b). (astype_X L X' a, map (astype_Y L Y') b))
         (mset (zip (X S) (Y S)))"
proof -
  let ?file = "savez_file (py_or npz_file_path
      (replace ''.sdf'' (npz_suffix struct_type) sdf_file_path))"
  from assms(2) convert_reference [OF assms(1)]
  have ref: "reference_call L (sdf_file_path, struct_type, properties, npz_file_path)
      (rng w) (files w) = (Inr (), w')"
    by simp
  then obtain S where
    run: "loop L struct_type properties (SDMolSupplier L sdf_file_path) initial = Inr S"
    by (cases "loop L struct_type properties (SDMolSupplier L sdf_file_path) initial")
      (simp_all add: reference_call_def)
  define p where "p = fst (shuffle (randbelow L) [0..<length (X S)] (rng w))"
  define X' where "X' = map ((!) (X S)) p"
  define Y' where "Y' = map ((!) (Y S)) p"
  from ref run have f: "files w' ?file = Some (np_array_X L X', np_array_Y L Y')"
    by (auto simp: reference_call_def Let_def p_def X'_def Y'_def split: if_splits)
  from loop_lengths [OF run] have len: "length (X S) = length (Y S)"
    by (simp add: initial_def)
  have p: "mset p = mset [0..<length (X S)]"
    unfolding p_def using assms(1) by (rule shuffle_mset)
  have "set p = {0..<length (X S)}" unfolding p_def using assms(1) by (rule shuffle_indices)
  then have bound: "\<forall>i \<in> set p. i < length (X S)" by simp
  have "zip X' Y' = map ((!) (zip (X S) (Y S))) p"
    unfolding X'_def Y'_def using len bound by (rule zip_map_nth)
  then have "mset (zip X' Y') = image_mset ((!) (zip (X S) (Y S))) (mset p)" by simp
  also have "\<dots> = mset (map ((!) (zip (X S) (Y S))) [0..<length (zip (X S) (Y S))])"
    unfolding p using len by simp
  finally have m: "mset (zip X' Y') = mset (zip (X S) (Y S))" by (simp only: map_nth)
  have z: "zip (map (astype_X L X') X') (map (map (astype_Y L Y')) Y') =
      map (\<lambda>(a, b). (astype_X L X' a, map (astype_Y L Y') b)) (zip X' Y')"
    by (simp add: zip_map_map)
  have saved: "mset (zip (map (astype_X L X') X') (map (map (astype_Y L Y')) Y')) =
      image_mset (\<lambda>(a, b). (astype_X L X' a, map (astype_Y L Y') b)) (mset (zip (X S) (Y S)))"
    unfolding z m [symmetric] by simp
  have l: "length (map (astype_X L X') X') = length (map (map (astype_Y L Y')) Y')"
    by (simp add: X'_def Y'_def)
  from f have f': "files w' ?file = Some (map (astype_X L X') X', map (map (astype_Y L Y')) Y')"
    by (simp add: np_array_X_def np_array_Y_def)
  from run p m f' l saved show ?thesis
    unfolding X'_def [symmetric] Y'_def [symmetric]
    by (intro exI [of _ S] exI [of _ p] exI [of _ X'] exI [of _ Y']
        exI [of _ "map (astype_X L X') X'"] exI [of _ "map (map (astype_Y L Y')) Y'"])
      (simp add: X'_def Y'_def)
qed


theorem shuffle_keeps_pairs_witness:
  "randbelow_in_range (randbelow example_library) \<and>
   convert_sdf_to_npz example_library ''a.sdf.sdf'' ''fingerprints''
     (Some [''NR-AR'', ''SR-ATAD5'']) None example_world =
   (Inr (),
    \<lparr>files = [''a_fingerprints.npz_fingerprints.npz'' \<mapsto>
        ([Fingerprint [False, True], Fingerprint [True, False]], [[1, 1], [1, 0]])],
     rng = 1\<rparr>) \<and>
   (\<exists>p. mset p = mset [0, 1] \<and>
      [Fingerprint [False, True], Fingerprint [True, False]] =
        map ((!) [Fingerprint [True, False], Fingerprint [False, True :: bool] :: nat struct]) p \<and>
      [[1, 1], [1, 0]] = map ((!) [[1, 0], [1, 1 :: int]]) p)"
proof -
  from shuffle_keeps_pairs [OF example_randbelow example_convert]
  obtain S p X' Y' x y where
    "loop example_library ''fingerprints'' (Some [''NR-AR'', ''SR-ATAD5''])
       (SDMolSupplier example_library ''a.sdf.sdf'') initial = Inr S"
    and p: "mset p = mset [0..<length (X S)]" "X' = map ((!) (X S)) p" "Y' = map ((!) (Y S)) p"
    and f: "files \<lparr>files = [''a_fingerprints.npz_fingerprints.npz'' \<mapsto>
        ([Fingerprint [False, True], Fingerprint [True, False]], [[1, 1], [1, 0 :: int]])],
        rng = 1 :: nat\<rparr>
       (savez_file (py_or None (replace ''.sdf'' (npz_suffix ''fingerprints'') ''a.sdf.sdf'')))
        = Some (x, y)"
    and xy: "x = map (astype_X example_library X') X'"
      "y = map (map (astype_Y example_library Y')) Y'"
    by blast
  then have S: "S = \<lparr>X = [Fingerprint [True, False], Fingerprint [False, True]],
        Y = [[1, 0], [1, 1]], counter = 4, warnings = [AttributeError]\<rparr>"
    unfolding example_supplier example_loop by simp
  from xy have same: "x = X'" "y = Y'" by (simp_all add: example_library_def)
  from f have val: "x = [Fingerprint [False, True], Fingerprint [True, False]]"
      "y = [[1, 1], [1, 0]]"
    by (simp_all add: py_or_def npz_suffix_def savez_file_def suffix_to_prefix)
  from p have "mset p = mset [0, 1] \<and>
      [Fingerprint [False, True], Fingerprint [True, False]] =
        map ((!) [Fingerprint [True, False], Fingerprint [False, True :: bool] :: nat struct]) p \<and>
      [[1, 1], [1, 0]] = map ((!) [[1, 0], [1, 1 :: int]]) p"
    unfolding same [symmetric] val S by simp
  then have "\<exists>p. mset p = mset [0, 1] \<and>
      [Fingerprint [False, True], Fingerprint [True, False]] =
        map ((!) [Fingerprint [True, False], Fingerprint [False, True :: bool] :: nat struct]) p \<and>
      [[1, 1], [1, 0]] = map ((!) [[1, 0], [1, 1 :: int]]) p"
    by (rule exI)
  with example_randbelow example_convert show ?thesis by (intro conjI)
qed

subsection \<open>C10: reproducible runs\<close>

lemma and_then_assoc: "and_then (and_then r f) h = and_then r (\<lambda>w. and_then (f w) h)"
  by (simp add: and_then_def split: sum.splits)

lemma replay_single: "replay L [c] g fs = reference_call L c g fs"
proof (cases "reference_call L c g fs")
  case (Pair r w)
  then show ?thesis by (cases r; cases w) simp_all
qed

lemma and_then_replay:
  "and_then (replay L [c] g fs) (\<lambda>w. replay L cs (rng w) (files w)) = replay L (c # cs) g fs"
proof (cases "reference_call L c g fs")
  case (Pair r w)
  then show ?thesis by (cases r; cases w) (simp_all add: and_then_def)
qed

text \<open>\<open>main\<close> is the replay of its six calls from the generator state it starts with.\<close>

lemma main_replay:
  assumes "randbelow_in_range (randbelow L)"
  shows "main L w = replay L main_calls (rng w) (files w)"
proof -
  have conv: "convert_sdf_to_npz L sdf st props npz =
      (\<lambda>w. replay L [(sdf, st, props, npz)] (rng w) (files w))" for sdf st props npz
    by (rule ext) (simp only: convert_reference [OF assms] replay_single)
  show ?thesis
    unfolding main_def main_calls_def Let_def conv and_then_assoc
    by (simp only: and_then_replay)
qed

text \<open>
  Claim C10. What a run of the script raises and leaves behind (the files saved and
  the generator) does not depend on the state the generator had when the script
  started, so two runs on the same files save the same arrays. Given the contract of
  \<open>randbelow\<close>, the run is the replay of the six calls of \<open>main\<close> from the generator state
  of \<open>random.seed(1)\<close>: the rearrangement of each call is the shuffle of the indices of
  its filtered records from the state that \<open>seed(1)\<close> and the shuffles of the calls
  before it have left, a function of the constant \<open>1\<close> and of the input files.
\<close>

theorem script_reproducible:
  "script L (w\<lparr>rng := g\<rparr>) = script L (w\<lparr>rng := g'\<rparr>) \<and>
   (randbelow_in_range (randbelow L) \<longrightarrow>
      script L (w\<lparr>rng := g\<rparr>) = replay L main_calls (seed L 1) (files w))"
proof (intro conjI impI)
  show "script L (w\<lparr>rng := g\<rparr>) = script L (w\<lparr>rng := g'\<rparr>)"
    by (simp add: script_def)
next
  assume "randbelow_in_range (randbelow L)"
  from main_replay [OF this, of "w\<lparr>rng := seed L 1\<rparr>"]
  show "script L (w\<lparr>rng := g\<rparr>) = replay L main_calls (seed L 1) (files w)"
    by (simp add: script_def)
qed

lemma script_loops:
  "loop script_library ''fingerprints'' (Some [''NR-AR'', ''NR-ER-LBD'', ''SR-ATAD5''])
     (SDMolSupplier script_library ''data/tox21_10k_data_all.sdf'') initial =
   Inr \<lparr>X = [Fingerprint [True, False], Fingerprint [False, False]],
        Y = [[1, 0, 0], [0, 1, 1]], counter = 4, warnings = [AttributeError]\<rparr>"
  "loop script_library ''fingerprints'' (Some [''KOW logP''])
     (SDMolSupplier script_library ''data/ncidb.sdf'') initial =
   Inr \<lparr>X = [Fingerprint [False, True], Fingerprint [False, False]],
        Y = [[2], [5]], counter = 2, warnings = []\<rparr>"
  "loop script_library ''fingerprints'' (Some [''Experimental logP''])
     (SDMolSupplier script_library ''data/ncidb.sdf'') initial =
   Inr \<lparr>X = [Fingerprint [False, True], Fingerprint [False, False]],
        Y = [[3], [4]], counter = 2, warnings = []\<rparr>"
  "loop script_library ''2Dimg'' (Some [''NR-AR'', ''NR-ER-LBD'', ''SR-ATAD5''])
     (SDMolSupplier script_library ''data/tox21_10k_data_all.sdf'') initial =
   Inr \<lparr>X = [Image2D 800, Image2D 802],
        Y = [[1, 0, 0], [0, 1, 1]], counter = 4, warnings = [AttributeError]\<rparr>"
  "loop script_library ''2Dimg'' (Some [''KOW logP''])
     (SDMolSupplier script_library ''data/ncidb.sdf'') initial =
   Inr \<lparr>X = [Image2D 803, Image2D 804], Y = [[2], [5]], counter = 2, warnings = []\<rparr>"
  "loop script_library ''2Dimg'' (Some [''Experimental logP''])
     (SDMolSupplier script_library ''data/ncidb.sdf'') initial =
   Inr \<lparr>X = [Image2D 803, Image2D 804], Y = [[3], [4]], counter = 2, warnings = []\<rparr>"
  by (simp_all add: iteration_def try_body_def encode_def convert_smiles_into_fingerprints_def
      convert_smiles_into_2d_structure_images_def script_library_def script_props_def
      initial_def)

lemma script_replay:
  "replay script_library main_calls (seed script_library 1) Map.empty =
   (Inr (),
    \<lparr>files =
       [''data/tox21_10k_data_all_fingerprints.npz'' \<mapsto>
          ([Fingerprint [True, False], Fingerprint [False, False]], [[1, 0, 0], [0, 1, 1]]),
        ''data/ncidb_fingerprints.npz'' \<mapsto>
          ([Fingerprint [False, False], Fingerprint [False, True]], [[5], [2]]),
        ''data/ncidb_experim_data_fingerprints.npz'' \<mapsto>
          ([Fingerprint [False, True], Fingerprint [False, False]], [[3], [4]]),
        ''data/tox21_10k_data_all_2Dimg.npz'' \<mapsto>
          ([Image2D 802, Image2D 800], [[0, 1, 1], [1, 0, 0]]),
        ''data/ncidb_2Dimg.npz'' \<mapsto> ([Image2D 803, Image2D 804], [[2], [5]]),
        ''data/ncidb_experim_data_fingerprints.npz'' \<mapsto>
          ([Image2D 804, Image2D 803], [[4], [3]])],
     rng = 7\<rparr>)"
  unfolding main_calls_def replay.simps reference_call_def prod.case script_loops
  by (simp add: script_library_def shuffle_def py_or_def npz_suffix_def
      np_array_X_def np_array_Y_def savez_file_def suffix_to_prefix upt_rec mod_Suc)


theorem script_reproducible_witness:
  "randbelow_in_range (randbelow script_library) \<and>
   script script_library (example_world\<lparr>rng := 5\<rparr>) =
   (Inr (),
    \<lparr>files =
       [''data/tox21_10k_data_all_fingerprints.npz'' \<mapsto>
          ([Fingerprint [True, False], Fingerprint [False, False]], [[1, 0, 0], [0, 1, 1]]),
        ''data/ncidb_fingerprints.npz'' \<mapsto>
          ([Fingerprint [False, False], Fingerprint [False, True]], [[5], [2]]),
        ''data/ncidb_experim_data_fingerprints.npz'' \<mapsto>
          ([Fingerprint [False, True], Fingerprint [False, False]], [[3], [4]]),
        ''data/tox21_10k_data_all_2Dimg.npz'' \<mapsto>
          ([Image2D 802, Image2D 800], [[0, 1, 1], [1, 0, 0]]),
        ''data/ncidb_2Dimg.npz'' \<mapsto> ([Image2D 803, Image2D 804], [[2], [5]]),
        ''data/ncidb_experim_data_fingerprints.npz'' \<mapsto>
          ([Image2D 804, Image2D 803], [[4], [3]])],
     rng = 7\<rparr>) \<and>
   script script_library (example_world\<lparr>rng := 5\<rparr>) =
     script script_library (example_world\<lparr>rng := 42\<rparr>)"
proof -
  have ok: "randbelow_in_range (randbelow script_library)"
    by (simp add: randbelow_in_range_def script_library_def)
  note t = script_reproducible [where L = script_library and w = example_world
      and g = 5 and g' = 42]
  have empty: "files example_world = Map.empty" by (simp add: example_world_def)
  from t [THEN conjunct2, rule_format, OF ok]
  have "script script_library (example_world\<lparr>rng := 5\<rparr>) =
      replay script_library main_calls (seed script_library 1) Map.empty"
    unfolding empty .
  with ok t [THEN conjunct1] show ?thesis
    unfolding script_replay by (intro conjI)
qed

section \<open>Properties of each_metric\<close>

subsection \<open>C7: per-class accuracy\<close>

lemma has_shape_masking: "has_shape a n k \<Longrightarrow> has_shape (masking a) n k"
  by (simp add: has_shape_def masking_def list_all_iff)

lemma has_shape_getitem2:
  "has_shape a n k \<Longrightarrow> j < n \<Longrightarrow> i < k \<Longrightarrow> getitem2 a j i = Inr (rows a ! j ! i)"
  by (simp add: has_shape_def getitem2_def list_all_length)

lemma masking_entry:
  "has_shape a n k \<Longrightarrow> j < n \<Longrightarrow> i < k \<Longrightarrow>
   rows (masking a) ! j ! i = threshold (rows a ! j ! i)"
  by (simp add: has_shape_def masking_def list_all_length)

lemma count_right_eq:
  assumes "has_shape y_pred n k" and "has_shape y_test n k" and "i < k"
  shows "\<forall>j \<in> set js. j < n \<Longrightarrow>
   count_right y_pred y_test i js right =
     Inr (right + length (filter (\<lambda>j. rows y_pred ! j ! i = rows y_test ! j ! i) js))"
proof (induction js arbitrary: right)
  case Nil
  then show ?case by simp
next
  case (Cons j js)
  then have j: "j < n" and rest: "\<forall>j \<in> set js. j < n" by simp_all
  from has_shape_getitem2 [OF assms(1) j assms(3)] has_shape_getitem2 [OF assms(2) j assms(3)]
    Cons.IH [OF rest]
  show ?case by simp
qed

lemma accuracy_loop_eq:
  assumes "has_shape y_pred n k" and "has_shape y_test n k" and "0 < n"
  shows "\<forall>i \<in> set cols. i < k \<and> i < length classes \<Longrightarrow>
   accuracy_loop y_pred y_test n cols out =
     (Inr (), out @ map (\<lambda>i. Accuracy (classes ! i)
        (of_nat (length (filter (\<lambda>j. rows y_pred ! j ! i = rows y_test ! j ! i) [0..<n]))
           / of_nat n)) cols)"
proof (induction cols arbitrary: out)
  case Nil
  then show ?case by simp
next
  case (Cons i cols)
  then have i: "i < k" "i < length classes"
    and rest: "\<forall>i \<in> set cols. i < k \<and> i < length classes" by simp_all
  have "count_right y_pred y_test i [0..<n] 0 =
     Inr (0 + length (filter (\<lambda>j. rows y_pred ! j ! i = rows y_test ! j ! i) [0..<n]))"
    using assms(1,2) i(1) by (rule count_right_eq) simp
  with Cons.IH [OF rest] i(2) assms(3) show ?case
    by (simp add: truediv_def getitem_def)
qed

lemma f1_loop_eq:
  assumes "shape1 y_pred = k" and "shape1 y_test = k"
  shows "\<forall>i \<in> set cols. i < k \<and> i < length classes \<Longrightarrow>
   f1_loop fbeta_score y_pred y_test cols out =
     (Inr (), out @ map (\<lambda>i. F1_score (classes ! i)
        (fbeta_score (map (\<lambda>r. r ! i) (rows y_test)) (map (\<lambda>r. r ! i) (rows y_pred)) 1)) cols)"
proof (induction cols arbitrary: out)
  case Nil
  then show ?case by simp
next
  case (Cons i cols)
  then have i: "i < k" "i < length classes"
    and rest: "\<forall>i \<in> set cols. i < k \<and> i < length classes" by simp_all
  with Cons.IH [OF rest] assms show ?case
    by (simp add: column_def getitem_def)
qed

text \<open>
  As claim C7 is written, every pair of matrices of one shape gets an accuracy for each
  of its columns. The class names are a fixed array of three, read by \<open>classes[i]\<close>
  when the line is printed: on a \<open>1 \<times> 4\<close> prediction the first three accuracies are
  printed and the fourth column raises IndexError.
\<close>

theorem each_metric_counterexample:
  "has_shape \<lparr>shape1 = 4, rows = [[9 / 10, 1 / 10, 2 / 10, 7 / 10]]\<rparr> 1 4 \<and>
   has_shape \<lparr>shape1 = 4, rows = [[1, 0, 0, 1]]\<rparr> 1 4 \<and>
   each_metric (\<lambda>y_t y_p beta. 0) () \<lparr>shape1 = 4, rows = [[1, 0, 0, 1]]\<rparr>
     (\<lambda>u. \<lparr>shape1 = 4, rows = [[9 / 10, 1 / 10, 2 / 10, 7 / 10]]\<rparr>) =
   (Inl IndexError,
    [Accuracy ''NR-AR'' 1, Accuracy ''NR-ER-LBD'' 1, Accuracy ''SR-ATAD5'' 1])"
  by (simp add: has_shape_def each_metric_def masking_def threshold_def shape0_def
      getitem2_def truediv_def getitem_def classes_def upt_rec numeral_eq_Suc)

text \<open>
  Claim C7, amended. For a prediction matrix and a test-label matrix of the same shape
  with at least one row and at most three columns, \<open>each_metric\<close> raises nothing and
  prints for each column \<open>i\<close>, under the name \<open>classes[i]\<close>, the fraction of rows whose
  thresholded prediction (\<open>1\<close> exactly when the raw prediction is greater than \<open>0.5\<close>,
  else \<open>0\<close>) equals the label of column \<open>i\<close>; the lines of the F1 scores follow.
\<close>

theorem each_metric_accuracy:
  assumes "has_shape (predict input_data) n k" and "has_shape y_test n k"
    and "0 < n" and "k \<le> length classes"
  shows "each_metric fbeta_score input_data y_test predict =
     (Inr (),
      map (\<lambda>i. Accuracy (classes ! i) (class_accuracy (predict input_data) y_test i)) [0..<k]
      @ Banner #
      map (\<lambda>i. F1_score (classes ! i)
             (fbeta_score (map (\<lambda>r. r ! i) (rows y_test))
                (map (\<lambda>r. r ! i) (rows (masking (predict input_data)))) 1)) [0..<k])"
proof -
  let ?raw = "predict input_data"
  let ?p = "masking ?raw"
  have shp: "has_shape ?p n k" using assms(1) by (rule has_shape_masking)
  have cols: "\<forall>i \<in> set [0..<k]. i < k \<and> i < length classes" using assms(4) by simp
  have n: "length (rows ?raw) = n" "shape0 ?p = n" "shape1 ?p = k" "shape1 y_test = k"
    using assms(1,2) shp by (simp_all add: has_shape_def shape0_def)
  have acc: "map (\<lambda>i. Accuracy (classes ! i)
        (of_nat (length (filter (\<lambda>j. rows ?p ! j ! i = rows y_test ! j ! i) [0..<n]))
           / of_nat n)) [0..<k] =
      map (\<lambda>i. Accuracy (classes ! i) (class_accuracy ?raw y_test i)) [0..<k]"
  proof (rule map_cong [OF refl])
    fix i assume "i \<in> set [0..<k]"
    then have i: "i < k" by simp
    have "filter (\<lambda>j. rows ?p ! j ! i = rows y_test ! j ! i) [0..<n] =
      filter (\<lambda>j. threshold (rows ?raw ! j ! i) = rows y_test ! j ! i) [0..<n]"
      by (rule filter_cong [OF refl]) (simp add: masking_entry [OF assms(1) _ i])
    then show "Accuracy (classes ! i)
        (of_nat (length (filter (\<lambda>j. rows ?p ! j ! i = rows y_test ! j ! i) [0..<n]))
           / of_nat n) = Accuracy (classes ! i) (class_accuracy ?raw y_test i)"
      by (simp add: class_accuracy_def n(1))
  qed
  from accuracy_loop_eq [OF shp assms(2,3) cols, of "[]"] acc
  have a: "accuracy_loop ?p y_test n [0..<k] [] =
     (Inr (), map (\<lambda>i. Accuracy (classes ! i) (class_accuracy ?raw y_test i)) [0..<k])"
    by simp
  note f = f1_loop_eq [OF n(3,4) cols, of fbeta_score
      "map (\<lambda>i. Accuracy (classes ! i) (class_accuracy ?raw y_test i)) [0..<k] @ [Banner]"]
  show ?thesis
    unfolding each_metric_def Let_def n(2,3) a using f by simp
qed


theorem each_metric_accuracy_witness:
  "has_shape \<lparr>shape1 = 3, rows = [[9 / 10, 1 / 10, 6 / 10], [4 / 10, 7 / 10, 5 / 10]]\<rparr> 2 3 \<and>
   has_shape \<lparr>shape1 = 3, rows = [[1, 0, 0], [1, 1, 0]]\<rparr> 2 3 \<and>
   each_metric (\<lambda>y_t y_p beta. 0) () \<lparr>shape1 = 3, rows = [[1, 0, 0], [1, 1, 0]]\<rparr>
     (\<lambda>u. \<lparr>shape1 = 3, rows = [[9 / 10, 1 / 10, 6 / 10], [4 / 10, 7 / 10, 5 / 10]]\<rparr>) =
   (Inr (),
    [Accuracy ''NR-AR'' (1 / 2), Accuracy ''NR-ER-LBD'' 1, Accuracy ''SR-ATAD5'' (1 / 2),
     Banner, F1_score ''NR-AR'' 0, F1_score ''NR-ER-LBD'' 0, F1_score ''SR-ATAD5'' 0])"
proof -
  let ?raw = "\<lparr>shape1 = 3, rows = [[9 / 10, 1 / 10, 6 / 10], [4 / 10, 7 / 10, 5 / 10]]\<rparr>"
  let ?test = "\<lparr>shape1 = 3, rows = [[1, 0, 0], [1, 1, 0]]\<rparr>"
  have raw: "has_shape ?raw 2 3" and test: "has_shape ?test 2 3"
    by (simp_all add: has_shape_def)
  have rows: "(0::nat) < 2" and cols: "3 \<le> length classes"
    by (simp_all add: classes_def)
  have three: "[0..<3] = [0, 1, 2]" and two: "[0..<2] = [0, 1]"
    by (simp_all add: upt_rec numeral_eq_Suc)
  from each_metric_accuracy [of "\<lambda>u. ?raw" "()" 2 3 ?test "\<lambda>y_t y_p beta. 0",
      OF raw test rows cols]
  have "each_metric (\<lambda>y_t y_p beta. 0) () ?test (\<lambda>u. ?raw) =
   (Inr (),
    [Accuracy ''NR-AR'' (1 / 2), Accuracy ''NR-ER-LBD'' 1, Accuracy ''SR-ATAD5'' (1 / 2),
     Banner, F1_score ''NR-AR'' 0, F1_score ''NR-ER-LBD'' 0, F1_score ''SR-ATAD5'' 0])"
    by (simp add: three class_accuracy_def two threshold_def classes_def)
  with raw test show ?thesis by (intro conjI)
qed

end
